theory Spec2Isabelle
  imports Complex_Main
begin

section \<open>The tile world of \<^verbatim>\<open>public/game.js\<close>\<close>

text \<open>
  JavaScript numbers are IEEE doubles. Positions, velocities and time steps are modelled
  as \<^typ>\<open>real\<close> (no rounding error, no NaN, no infinities); tile indices, which the
  code always obtains from \<^verbatim>\<open>Math.floor\<close>, are modelled as \<^typ>\<open>int\<close>.
\<close>

definition TILE :: int where "TILE = 32"
definition LEVEL_W :: int where "LEVEL_W = 120"
definition LEVEL_H :: int where "LEVEL_H = 20"
definition GRAVITY :: real where "GRAVITY = 1800"
definition MOVE_ACCEL :: real where "MOVE_ACCEL = 1800"
definition MAX_SPEED_X :: real where "MAX_SPEED_X = 220"
definition JUMP_VY :: real where "JUMP_VY = - 520"
definition FRICTION :: real where "FRICTION = 85 / 100"

text \<open>\<^verbatim>\<open>GOAL_X = (LEVEL_W - 3) * TILE\<close>\<close>

definition GOAL_X :: int where "GOAL_X = (LEVEL_W - 3) * TILE"

subsection \<open>\<^verbatim>\<open>makeLevel\<close>\<close>

text \<open>
  The level is an array of \<^verbatim>\<open>LEVEL_H\<close> rows of \<^verbatim>\<open>LEVEL_W\<close> cells, 0 empty and 1 solid.
  \<^verbatim>\<open>lvl[y][x] = v\<close> is \<open>set_cell\<close>; every index \<^verbatim>\<open>makeLevel\<close> writes to is a
  constant inside the array. A \<^verbatim>\<open>for\<close> loop over a range is a \<open>fold\<close> over the list of
  the values its counter takes, in the order it takes them.
\<close>

type_synonym level = "nat list list"

definition set_cell :: "level \<Rightarrow> nat \<Rightarrow> nat \<Rightarrow> nat \<Rightarrow> level" where
  "set_cell lvl y x v = lvl[y := (lvl ! y)[x := v]]"

definition makeLevel :: level where
  "makeLevel =
    (let H = nat LEVEL_H; W = nat LEVEL_W;
         lvl = replicate H (replicate W (0::nat));
         \<comment> \<open>Ground\<close>
         lvl = fold (\<lambda>x l. fold (\<lambda>y l'. set_cell l' y x 1) [H - 2..<H] l) [0..<W] lvl;
         \<comment> \<open>Lowered platforms\<close>
         lvl = fold (\<lambda>x l. set_cell l 17 x 1) [10..<20] lvl;
         lvl = fold (\<lambda>x l. set_cell l 16 x 1) [22..<28] lvl;
         lvl = fold (\<lambda>x l. set_cell l 17 x 1) [35..<45] lvl;
         \<comment> \<open>Gaps in ground\<close>
         lvl = fold (\<lambda>x l. set_cell l (H - 2) x 0) [48..<52] lvl;
         lvl = fold (\<lambda>x l. set_cell l (H - 2) x 0) [70..<74] lvl;
         \<comment> \<open>Short pillars\<close>
         lvl = set_cell lvl (H - 3) 60 1;
         lvl = set_cell lvl (H - 3) 85 1;
         \<comment> \<open>Goal pillar: \<^verbatim>\<open>for (y = LEVEL_H - 3; y > LEVEL_H - 12; y--)\<close>\<close>
         lvl = fold (\<lambda>y l. set_cell l y (W - 3) 1) (rev [H - 11..<H - 2]) lvl
     in lvl)"

definition WORLD :: level where "WORLD = makeLevel"

text \<open>A level is a grid when it has \<open>H\<close> rows of \<open>W\<close> cells each.\<close>

definition grid :: "nat \<Rightarrow> nat \<Rightarrow> level \<Rightarrow> bool" where
  "grid H W lvl \<longleftrightarrow> length lvl = H \<and> list_all (\<lambda>row. length row = W) lvl"

subsection \<open>\<^verbatim>\<open>isSolidTile\<close>\<close>

definition isSolidTile :: "int \<Rightarrow> int \<Rightarrow> bool" where
  "isSolidTile tx ty =
    (if tx < 0 \<or> ty < 0 \<or> tx \<ge> LEVEL_W \<or> ty \<ge> LEVEL_H then True
     else WORLD ! nat ty ! nat tx = 1)"

section \<open>The physics body\<close>

text \<open>
  The global \<^verbatim>\<open>player\<close> object. \<^verbatim>\<open>onGroundLast\<close> is not among the fields the object
  literal declares: it is \<^verbatim>\<open>undefined\<close> (falsy) until the first \<^verbatim>\<open>update\<close> assigns it, read
  only in a condition, and so modelled as a boolean that starts false.
\<close>

record player =
  x :: real
  y :: real
  w :: real
  h :: real
  vx :: real
  vy :: real
  onGround :: bool
  facing :: int
  onGroundLast :: bool

definition player0 :: player where
  "player0 = \<lparr> x = of_int (TILE * 2), y = of_int (TILE * 12), w = 26, h = 30, vx = 0, vy = 0,
      onGround = False, facing = 1, onGroundLast = False \<rparr>"

definition reset :: "player \<Rightarrow> player" where
  "reset p = p\<lparr> x := of_int (TILE * 2), y := of_int (TILE * 12), vx := 0, vy := 0,
      onGround := False, facing := 1 \<rparr>"

text \<open>The keys the simulation reads from the global \<^verbatim>\<open>keys\<close> table (absent means false).\<close>

record keys =
  ArrowLeft :: bool
  ArrowRight :: bool
  Space :: bool
  KeyZ :: bool

subsection \<open>\<^verbatim>\<open>rectVsTilesMove\<close>\<close>

text \<open>
  The two scanning loops: \<^verbatim>\<open>for (ty = yTop; ty <= yBot; ty++) if (isSolidTile(xTile, ty)) {...; break}\<close>.
  What the body of the \<^verbatim>\<open>if\<close> assigns does not depend on \<^verbatim>\<open>ty\<close>, so the loop is
  modelled by the function that tells whether the body is reached.
\<close>

function scanColumn :: "int \<Rightarrow> int \<Rightarrow> int \<Rightarrow> bool" where
  "scanColumn xTile ty yBot =
    (if ty \<le> yBot then (if isSolidTile xTile ty then True else scanColumn xTile (ty + 1) yBot)
     else False)"
  by pat_completeness auto
termination
  by (relation "measure (\<lambda>(xTile, ty, yBot). nat (yBot + 1 - ty))") auto

function scanRow :: "int \<Rightarrow> int \<Rightarrow> int \<Rightarrow> bool" where
  "scanRow yTile tx xRight =
    (if tx \<le> xRight then (if isSolidTile tx yTile then True else scanRow yTile (tx + 1) xRight)
     else False)"
  by pat_completeness auto
termination
  by (relation "measure (\<lambda>(yTile, tx, xRight). nat (xRight + 1 - tx))") auto

declare scanColumn.simps [simp del] scanRow.simps [simp del]

text \<open>The horizontal half of \<^verbatim>\<open>rectVsTilesMove\<close> (\<^verbatim>\<open>Math.sign(dx) > 0\<close> is \<open>dx > 0\<close>).\<close>

definition moveX :: "player \<Rightarrow> real \<Rightarrow> player" where
  "moveX o' dx =
    (if dx \<noteq> 0 then
       (let nx = x o' + dx;
            ahead = (if dx > 0 then nx + w o' else nx);
            xTile = \<lfloor>ahead / of_int TILE\<rfloor>;
            yTop = \<lfloor>y o' / of_int TILE\<rfloor>;
            yBot = \<lfloor>(y o' + h o' - 1) / of_int TILE\<rfloor>
        in if scanColumn xTile yTop yBot
           then o'\<lparr> vx := 0,
                    x := (if dx > 0 then of_int (xTile * TILE) - w o' - 1 / 100
                          else of_int ((xTile + 1) * TILE) + 1 / 100) \<rparr>
           else o'\<lparr> x := nx \<rparr>)
     else o')"

text \<open>The vertical half.\<close>

definition moveY :: "player \<Rightarrow> real \<Rightarrow> player" where
  "moveY o' dy =
    (if dy \<noteq> 0 then
       (let ny = y o' + dy;
            ahead = (if dy > 0 then ny + h o' else ny);
            yTile = \<lfloor>ahead / of_int TILE\<rfloor>;
            xLeft = \<lfloor>x o' / of_int TILE\<rfloor>;
            xRight = \<lfloor>(x o' + w o' - 1) / of_int TILE\<rfloor>
        in if scanRow yTile xLeft xRight
           then o'\<lparr> vy := 0,
                    onGround := (if dy > 0 then True else onGround o'),
                    y := (if dy > 0 then of_int (yTile * TILE) - h o' - 1 / 100
                          else of_int ((yTile + 1) * TILE) + 1 / 100) \<rparr>
           else o'\<lparr> y := ny \<rparr>)
     else o')"

definition rectVsTilesMove :: "player \<Rightarrow> real \<Rightarrow> real \<Rightarrow> player" where
  "rectVsTilesMove o' dx dy = moveY (moveX o' dx) dy"

subsection \<open>Names for what the horizontal pass computes\<close>

text \<open>
  The locals \<^verbatim>\<open>xTile\<close>, \<^verbatim>\<open>yTop\<close> and \<^verbatim>\<open>yBot\<close> of the horizontal pass, and whether its loop
  finds a solid tile.
\<close>

definition xTileOf :: "player \<Rightarrow> real \<Rightarrow> int" where
  "xTileOf p dx = \<lfloor>(if dx > 0 then x p + dx + w p else x p + dx) / of_int TILE\<rfloor>"

definition yTopOf :: "player \<Rightarrow> int" where
  "yTopOf p = \<lfloor>y p / of_int TILE\<rfloor>"

definition yBotOf :: "player \<Rightarrow> int" where
  "yBotOf p = \<lfloor>(y p + h p - 1) / of_int TILE\<rfloor>"

definition blockedX :: "player \<Rightarrow> real \<Rightarrow> bool" where
  "blockedX p dx = scanColumn (xTileOf p dx) (yTopOf p) (yBotOf p)"

text \<open>
  The box is clear when no column whose interior it meets has a solid tile in the rows
  that the horizontal pass scans.
\<close>

definition clearX :: "player \<Rightarrow> bool" where
  "clearX p \<longleftrightarrow>
    (\<forall>tx \<in> set [\<lfloor>x p / of_int TILE\<rfloor> .. \<lceil>(x p + w p) / of_int TILE\<rceil> - 1].
       \<not> scanColumn tx (yTopOf p) (yBotOf p))"

text \<open>
  By how much the box reaches into tile column \<open>tx\<close> and into tile row \<open>ty\<close>: positive
  exactly when it meets the interior of the column or row.
\<close>

definition overlapX :: "player \<Rightarrow> int \<Rightarrow> real" where
  "overlapX p tx = min (x p + w p) (of_int ((tx + 1) * TILE)) - max (x p) (of_int (tx * TILE))"

definition overlapY :: "player \<Rightarrow> int \<Rightarrow> real" where
  "overlapY p ty = min (y p + h p) (of_int ((ty + 1) * TILE)) - max (y p) (of_int (ty * TILE))"

subsection \<open>\<^verbatim>\<open>update\<close>\<close>

text \<open>
  One tick. The request for a new action at the top of \<^verbatim>\<open>update\<close> only starts a promise,
  whose callbacks run between ticks, and the camera is written and never read by the
  simulation: neither is part of the model. The stages are named so that the properties
  can speak about the state between them.
\<close>

definition inputStep :: "keys \<Rightarrow> real \<Rightarrow> player \<Rightarrow> player" where
  "inputStep k dt p =
    (let ax = 0;
         (ax, p) = (if ArrowLeft k then (ax - MOVE_ACCEL, p\<lparr> facing := - 1 \<rparr>) else (ax, p));
         (ax, p) = (if ArrowRight k then (ax + MOVE_ACCEL, p\<lparr> facing := 1 \<rparr>) else (ax, p));
         p = p\<lparr> vx := vx p + ax * dt \<rparr>;
         p = p\<lparr> vx := max (min (vx p) MAX_SPEED_X) (- MAX_SPEED_X) \<rparr>;
         p = p\<lparr> vx := vx p * FRICTION \<rparr>
     in p)"

definition gravityStep :: "real \<Rightarrow> player \<Rightarrow> player" where
  "gravityStep dt p = (let p = p\<lparr> onGround := False \<rparr> in p\<lparr> vy := vy p + GRAVITY * dt \<rparr>)"

definition jumpStep :: "keys \<Rightarrow> player \<Rightarrow> player" where
  "jumpStep k p =
    (if Space k \<or> KeyZ k then (if onGroundLast p then p\<lparr> vy := JUMP_VY \<rparr> else p) else p)"

definition moveStep :: "real \<Rightarrow> player \<Rightarrow> player" where
  "moveStep dt p =
    (let p = rectVsTilesMove p (vx p * dt) 0
     in rectVsTilesMove p 0 (vy p * dt))"

definition goalReached :: "player \<Rightarrow> bool" where
  "goalReached p \<longleftrightarrow> x p > of_int (GOAL_X - TILE) \<and> y p < of_int ((LEVEL_H - 3) * TILE)"

definition goalStep :: "player \<Rightarrow> player" where
  "goalStep p = (if goalReached p then reset p else p)"

definition update :: "keys \<Rightarrow> real \<Rightarrow> player \<Rightarrow> player" where
  "update k dt p =
    (let p = inputStep k dt p;
         p = gravityStep dt p;
         p = jumpStep k p;
         p = moveStep dt p;
         p = goalStep p
     in p\<lparr> onGroundLast := onGround p \<rparr>)"

subsection \<open>Names for the stages of a tick\<close>

text \<open>
  The body before the two moves, the body between them, the local \<^verbatim>\<open>yTile\<close> of the
  vertical pass and whether its loop finds a solid tile.
\<close>

definition beforeMove :: "keys \<Rightarrow> real \<Rightarrow> player \<Rightarrow> player" where
  "beforeMove k dt p = jumpStep k (gravityStep dt (inputStep k dt p))"

definition afterMoveX :: "keys \<Rightarrow> real \<Rightarrow> player \<Rightarrow> player" where
  "afterMoveX k dt p = rectVsTilesMove (beforeMove k dt p) (vx (beforeMove k dt p) * dt) 0"

definition yTileOf :: "player \<Rightarrow> real \<Rightarrow> int" where
  "yTileOf p dy = \<lfloor>(if dy > 0 then y p + dy + h p else y p + dy) / of_int TILE\<rfloor>"

definition blockedY :: "player \<Rightarrow> real \<Rightarrow> bool" where
  "blockedY p dy =
     scanRow (yTileOf p dy) \<lfloor>x p / of_int TILE\<rfloor> \<lfloor>(x p + w p - 1) / of_int TILE\<rfloor>"

text \<open>
  A tick applies the jump impulse; the vertical pass of a tick reaches a solid tile; a
  tick of free fall is one that does neither and does not end in the goal reset.
\<close>

definition jumps :: "keys \<Rightarrow> player \<Rightarrow> bool" where
  "jumps k p \<longleftrightarrow> (Space k \<or> KeyZ k) \<and> onGroundLast p"

definition reachesSolid :: "keys \<Rightarrow> real \<Rightarrow> player \<Rightarrow> bool" where
  "reachesSolid k dt p = blockedY (afterMoveX k dt p) (vy (beforeMove k dt p) * dt)"

definition freeFallTick :: "keys \<Rightarrow> real \<Rightarrow> player \<Rightarrow> bool" where
  "freeFallTick k dt p \<longleftrightarrow>
     \<not> jumps k p \<and> \<not> reachesSolid k dt p \<and> \<not> goalReached (moveStep dt (beforeMove k dt p))"

text \<open>
  Ticks of free fall one after the other, under the keys \<open>ks\<close>; and a run in which every
  tick leaves the body off the ground and lower than before.
\<close>

fun freeFall :: "keys list \<Rightarrow> real \<Rightarrow> player \<Rightarrow> bool" where
  "freeFall [] dt p = True"
| "freeFall (k # ks) dt p = (freeFallTick k dt p \<and> freeFall ks dt (update k dt p))"

fun descends :: "keys list \<Rightarrow> real \<Rightarrow> player \<Rightarrow> bool" where
  "descends [] dt p = True"
| "descends (k # ks) dt p =
     (\<not> onGround (update k dt p) \<and> y p < y (update k dt p) \<and> descends ks dt (update k dt p))"

subsection \<open>\<^verbatim>\<open>snapshotState\<close>\<close>

text \<open>\<^verbatim>\<open>Math.round\<close>: the nearest integer, a tie going up.\<close>

definition js_round :: "real \<Rightarrow> real" where
  "js_round v = of_int \<lfloor>v + 1 / 2\<rfloor>"

record snapshot_player =
  snap_x :: real
  snap_y :: real
  snap_vx :: real
  snap_vy :: real
  snap_onGround :: bool

record snapshot =
  snap_player :: snapshot_player
  nearGrid :: level
  goal_x :: int

text \<open>
  The grid starts as 5 rows of 9 zeros and the two nested loops assign every cell.
  \<^verbatim>\<open>player.onGround\<close> is a boolean in every state of the game, so \<^verbatim>\<open>!!\<close> leaves it as it is.
\<close>

definition snapshotState :: "player \<Rightarrow> snapshot" where
  "snapshotState p =
    (let txFeet = \<lfloor>(x p + w p / 2) / of_int TILE\<rfloor>;
         tyFeet = \<lfloor>(y p + h p) / of_int TILE\<rfloor>;
         rows = 5; cols = 9;
         grid0 = replicate rows (replicate cols (0::nat));
         filled = fold (\<lambda>r g. fold (\<lambda>c g'.
                     set_cell g' r c (if isSolidTile (txFeet + int c) (tyFeet - int r) then 1 else 0))
                   [0..<cols] g) [0..<rows] grid0
     in \<lparr> snap_player = \<lparr> snap_x = js_round (x p), snap_y = js_round (y p),
                             snap_vx = js_round (vx p), snap_vy = js_round (vy p),
                             snap_onGround = onGround p \<rparr>,
          nearGrid = filled,
          goal_x = GOAL_X \<rparr>)"

text \<open>The y at which \<^verbatim>\<open>draw\<close> starts the flagpole: \<^verbatim>\<open>(LEVEL_H - 11) * TILE\<close>.\<close>

definition FLAGPOLE_TOP :: int where "FLAGPOLE_TOP = (LEVEL_H - 11) * TILE"

section \<open>The agent server, \<^verbatim>\<open>server.js\<close>\<close>

subsection \<open>JavaScript values\<close>

text \<open>
  The values the server handles come out of \<^verbatim>\<open>JSON.parse\<close> (the request body, the model's
  answer), or are \<^verbatim>\<open>undefined\<close> where a property is absent. An object is the list of its
  own properties, looked up by name; an array is the list of its elements. Numbers are
  reals. A string value is the list of its UTF-16 code units, as JavaScript has it; \<open>lit\<close>
  gives the code units of an ASCII literal of the source. Property names are kept as text:
  the server looks up the names of its own literals only.
\<close>

type_synonym jsstring = "nat list"

definition lit :: "string \<Rightarrow> jsstring" where
  "lit s = map of_char s"

datatype jsval =
    JUndefined
  | JNull
  | JBool bool
  | JNum real
  | JStr jsstring
  | JArr "jsval list"
  | JObj "(string \<times> jsval) list"

text \<open>What the server throws: the five messages of \<^verbatim>\<open>validateState\<close>, and inside
  \<^verbatim>\<open>decideAction\<close> a \<^verbatim>\<open>TypeError\<close> (a property of \<^verbatim>\<open>null\<close>), the \<^verbatim>\<open>SyntaxError\<close> of
  \<^verbatim>\<open>JSON.parse\<close>, and the rejection of the awaited request (HTTP error, abort).\<close>

datatype error =
    MissingState
  | OnGroundNotBoolean
  | NearGridNotArray
  | NearGridRows
  | NearGridCols nat
  | TypeError
  | SyntaxError
  | RequestFailed

text \<open>Truthiness, \<^verbatim>\<open>== null\<close>, \<^verbatim>\<open>typeof\<close> and \<^verbatim>\<open>Array.isArray\<close>.\<close>

fun truthy :: "jsval \<Rightarrow> bool" where
  "truthy JUndefined = False"
| "truthy JNull = False"
| "truthy (JBool b) = b"
| "truthy (JNum n) = (n \<noteq> 0)"
| "truthy (JStr s) = (s \<noteq> [])"
| "truthy (JArr _) = True"
| "truthy (JObj _) = True"

fun nullish :: "jsval \<Rightarrow> bool" where
  "nullish JUndefined = True"
| "nullish JNull = True"
| "nullish _ = False"

fun typeof_object :: "jsval \<Rightarrow> bool" where
  "typeof_object JNull = True"
| "typeof_object (JArr _) = True"
| "typeof_object (JObj _) = True"
| "typeof_object _ = False"

fun typeof_boolean :: "jsval \<Rightarrow> bool" where
  "typeof_boolean (JBool _) = True"
| "typeof_boolean _ = False"

fun isArray :: "jsval \<Rightarrow> bool" where
  "isArray (JArr _) = True"
| "isArray _ = False"

text \<open>The elements of an array (\<^verbatim>\<open>.length\<close> is read only after \<^verbatim>\<open>Array.isArray\<close>).\<close>

fun elems :: "jsval \<Rightarrow> jsval list" where
  "elems (JArr vs) = vs"
| "elems _ = []"

text \<open>
  \<^verbatim>\<open>v.name\<close> for the names the server reads (\<^verbatim>\<open>player\<close>, \<^verbatim>\<open>onGround\<close>, \<^verbatim>\<open>nearGrid\<close>,
  \<^verbatim>\<open>action\<close>), which no built-in prototype defines: the own property of an object,
  \<^verbatim>\<open>undefined\<close> on every other value that is not \<^verbatim>\<open>null\<close> or \<^verbatim>\<open>undefined\<close>. On those two
  JavaScript throws; the callers below test for them first.
\<close>

fun getProp :: "jsval \<Rightarrow> string \<Rightarrow> jsval" where
  "getProp (JObj kvs) name = (case map_of kvs name of Some v \<Rightarrow> v | None \<Rightarrow> JUndefined)"
| "getProp _ name = JUndefined"

text \<open>\<^verbatim>\<open>v[i]\<close>: an element of an array, a character of a string, the property of an
  object whose name is the decimal numeral of \<open>i\<close>.\<close>

function dec :: "nat \<Rightarrow> string" where
  "dec n = (if n < 10 then [char_of (48 + n)] else dec (n div 10) @ [char_of (48 + n mod 10)])"
  by pat_completeness auto
termination
  by (relation "measure id") auto

declare dec.simps [simp del]

fun idx :: "jsval \<Rightarrow> nat \<Rightarrow> jsval" where
  "idx (JArr vs) i = (if i < length vs then vs ! i else JUndefined)"
| "idx (JStr s) i = (if i < length s then JStr [s ! i] else JUndefined)"
| "idx (JObj kvs) i = getProp (JObj kvs) (dec i)"
| "idx _ i = JUndefined"

text \<open>Optional chaining \<^verbatim>\<open>v?.name\<close> and \<^verbatim>\<open>v?.[i]\<close>, and \<^verbatim>\<open>a || b\<close>.\<close>

definition opt_prop :: "jsval \<Rightarrow> string \<Rightarrow> jsval" where
  "opt_prop v name = (if nullish v then JUndefined else getProp v name)"

definition opt_idx :: "jsval \<Rightarrow> nat \<Rightarrow> jsval" where
  "opt_idx v i = (if nullish v then JUndefined else idx v i)"

definition js_or :: "jsval \<Rightarrow> jsval \<Rightarrow> jsval" where
  "js_or a b = (if truthy a then a else b)"

subsection \<open>\<^verbatim>\<open>ACTIONS\<close>, \<^verbatim>\<open>validateState\<close>, \<^verbatim>\<open>heuristic\<close>\<close>

definition ACTIONS :: "jsstring set" where
  "ACTIONS = lit ` {''idle'', ''left'', ''right'', ''jump'', ''left_jump'', ''right_jump''}"

definition validateState :: "jsval \<Rightarrow> error + jsval" where
  "validateState state =
    (if \<not> truthy state \<or> \<not> typeof_object state then Inl MissingState
     else let p = js_or (getProp state ''player'') (JObj []) in
       if \<not> typeof_boolean (getProp p ''onGround'') then Inl OnGroundNotBoolean
       else if \<not> isArray (getProp state ''nearGrid'') then Inl NearGridNotArray
       else if length (elems (getProp state ''nearGrid'')) < 5 then Inl NearGridRows
       else (case find (\<lambda>r. \<not> isArray (idx (getProp state ''nearGrid'') r)
                            \<or> length (elems (idx (getProp state ''nearGrid'') r)) < 9) [0..<5] of
               Some r \<Rightarrow> Inl (NearGridCols r)
             | None \<Rightarrow> Inr state))"

definition heuristic :: "jsval \<Rightarrow> string" where
  "heuristic state =
    (let g = js_or (opt_prop state ''nearGrid'') (JArr []);
         onGround = truthy (opt_prop (opt_prop state ''player'') ''onGround'');
         obstacleAhead = (opt_idx (idx g 0) 1 = JNum 1 \<or> opt_idx (idx g 0) 2 = JNum 1);
         gapHere = (opt_idx (idx g 0) 0 = JNum 0)
     in if onGround \<and> (obstacleAhead \<or> gapHere) then ''right_jump'' else ''right'')"

subsection \<open>\<^verbatim>\<open>stripFences\<close>\<close>

text \<open>
  White space is what \<^verbatim>\<open>\s\<close> and \<^verbatim>\<open>trim\<close> take for it, the white space and line
  terminators of ECMAScript: U+0009 to U+000D, U+0020, U+00A0, U+1680, U+2000 to U+200A,
  U+2028, U+2029, U+202F, U+205F, U+3000 and U+FEFF. Under \<^verbatim>\<open>/i\<close> (without \<^verbatim>\<open>/u\<close>) a
  letter of \<^verbatim>\<open>json\<close> matches itself and its ASCII capital, and nothing else.
  \<^verbatim>\<open>/^```(?:json)?\s*/i\<close> removes an opening fence, an optional \<^verbatim>\<open>json\<close> and the white
  space after them; \<^verbatim>\<open>/\s*```$/i\<close> removes a fence that ends the string and the white
  space before it.
\<close>

definition is_space :: "nat \<Rightarrow> bool" where
  "is_space c \<longleftrightarrow>
     c \<in> {0x09, 0x0A, 0x0B, 0x0C, 0x0D, 0x20, 0xA0, 0x1680, 0x2028, 0x2029, 0x202F, 0x205F,
           0x3000, 0xFEFF}
     \<or> (0x2000 \<le> c \<and> c \<le> 0x200A)"

definition ascii_lower :: "nat \<Rightarrow> nat" where
  "ascii_lower c = (if 65 \<le> c \<and> c \<le> 90 then c + 32 else c)"

definition trim :: "jsstring \<Rightarrow> jsstring" where
  "trim s = rev (dropWhile is_space (rev (dropWhile is_space s)))"

definition strip_prefix_ci :: "jsstring \<Rightarrow> jsstring \<Rightarrow> jsstring option" where
  "strip_prefix_ci pre s =
    (if map ascii_lower (take (length pre) s) = pre then Some (drop (length pre) s) else None)"

definition strip_open_fence :: "jsstring \<Rightarrow> jsstring" where
  "strip_open_fence s =
    (case strip_prefix_ci (lit ''```'') s of
       None \<Rightarrow> s
     | Some t \<Rightarrow>
         dropWhile is_space (case strip_prefix_ci (lit ''json'') t of None \<Rightarrow> t | Some u \<Rightarrow> u))"

definition strip_close_fence :: "jsstring \<Rightarrow> jsstring" where
  "strip_close_fence s =
    (case strip_prefix_ci (lit ''```'') (rev s) of
       None \<Rightarrow> s
     | Some t \<Rightarrow> rev (dropWhile is_space t))"

definition stripFences :: "jsval \<Rightarrow> jsstring" where
  "stripFences s =
    (case s of JStr str \<Rightarrow> trim (strip_close_fence (strip_open_fence str)) | _ \<Rightarrow> lit ''{}'')"

subsection \<open>\<^verbatim>\<open>decideAction\<close>\<close>

text \<open>
  \<^verbatim>\<open>String(v)\<close>: an array is its elements joined by commas, \<^verbatim>\<open>null\<close> and \<^verbatim>\<open>undefined\<close>
  elements giving the empty string. How JavaScript prints a number is a parameter \<open>ns\<close>.
\<close>

fun join_comma :: "jsstring list \<Rightarrow> jsstring" where
  "join_comma [] = []"
| "join_comma [s] = s"
| "join_comma (s # t # ss) = s @ lit '','' @ join_comma (t # ss)"

fun js_String :: "(real \<Rightarrow> jsstring) \<Rightarrow> jsval \<Rightarrow> jsstring" where
  "js_String ns JUndefined = lit ''undefined''"
| "js_String ns JNull = lit ''null''"
| "js_String ns (JBool b) = (if b then lit ''true'' else lit ''false'')"
| "js_String ns (JNum n) = ns n"
| "js_String ns (JStr s) = s"
| "js_String ns (JArr vs) = join_comma (map (\<lambda>v. if nullish v then [] else js_String ns v) vs)"
| "js_String ns (JObj kvs) = lit ''[object Object]''"

text \<open>
  The service behind the client: its answer arrives \<open>latency\<close> milliseconds after the
  request and is a rejection (an error of the client or of the service) or a completion,
  of which the code reads \<^verbatim>\<open>choices?.[0]?.message?.content\<close> only.
\<close>

datatype completion = Rejected | Resolved jsval

record remote =
  latency :: nat
  reply :: completion

text \<open>
  The client library's \<^verbatim>\<open>create(body, options)\<close>, which is not part of the repository. It
  rejects when the abort signal of its second argument, the request options, fires before
  the answer has arrived; a \<^verbatim>\<open>signal\<close> property of its first argument is one more field of
  the request body and aborts nothing. A signal is given here by the time, in milliseconds
  after the call, at which it fires.
\<close>

definition create :: "nat option \<Rightarrow> nat option \<Rightarrow> remote \<Rightarrow> completion" where
  "create bodySignal optionsSignal r =
    (case optionsSignal of
       None \<Rightarrow> reply r
     | Some t \<Rightarrow> if t < latency r then Rejected else reply r)"

text \<open>The delay of \<^verbatim>\<open>setTimeout(() => ac.abort('timeout'), 2500)\<close>.\<close>

definition TIMEOUT_MS :: nat where "TIMEOUT_MS = 2500"

text \<open>
  \<open>askModel\<close> is the body of the \<^verbatim>\<open>try\<close> from the awaited completion up to the normalised
  token. \<^verbatim>\<open>JSON.parse\<close> is a parameter \<open>parse\<close>, \<open>None\<close> standing for its \<^verbatim>\<open>SyntaxError\<close>, and
  \<^verbatim>\<open>toLowerCase\<close> is a parameter \<open>lower\<close>.
\<close>

definition askModel ::
    "(jsstring \<Rightarrow> jsval option) \<Rightarrow> (real \<Rightarrow> jsstring) \<Rightarrow> (jsstring \<Rightarrow> jsstring) \<Rightarrow> completion
      \<Rightarrow> error + jsstring" where
  "askModel parse ns lower c =
    (case c of
       Rejected \<Rightarrow> Inl RequestFailed
     | Resolved content \<Rightarrow>
         (let raw = (if nullish content then JStr (lit ''{}'') else content);
              jsonText = stripFences raw
          in case parse jsonText of
               None \<Rightarrow> Inl SyntaxError
             | Some parsed \<Rightarrow>
                 if nullish parsed then Inl TypeError
                 else Inr (lower (js_String ns (js_or (getProp parsed ''action'') (JStr []))))))"

text \<open>
  \<^verbatim>\<open>decideAction\<close>. The call to \<^verbatim>\<open>create\<close> has one argument, the request body, and
  \<^verbatim>\<open>signal: ac.signal\<close> is a property of it; no request options are passed.
\<close>

definition decideAction ::
    "bool \<Rightarrow> (jsstring \<Rightarrow> jsval option) \<Rightarrow> (real \<Rightarrow> jsstring) \<Rightarrow> (jsstring \<Rightarrow> jsstring) \<Rightarrow> remote
      \<Rightarrow> jsval \<Rightarrow> jsstring" where
  "decideAction openai parse ns lower r state =
    (if \<not> openai then lit (heuristic state)
     else case askModel parse ns lower (create (Some TIMEOUT_MS) None r) of
            Inr a \<Rightarrow> if a \<in> ACTIONS then a else lit (heuristic state)
          | Inl err \<Rightarrow> lit (heuristic state))"

text \<open>
  The snapshot as the server receives it: \<^verbatim>\<open>requestAction\<close> sends
  \<^verbatim>\<open>JSON.stringify({ state })\<close> and the route reads \<^verbatim>\<open>state\<close> from the parsed body.
\<close>

definition snapshot_json :: "snapshot \<Rightarrow> jsval" where
  "snapshot_json s =
    JObj [(''player'', JObj [(''x'', JNum (snap_x (snap_player s))), (''y'', JNum (snap_y (snap_player s))),
                             (''vx'', JNum (snap_vx (snap_player s))), (''vy'', JNum (snap_vy (snap_player s))),
                             (''onGround'', JBool (snap_onGround (snap_player s)))]),
          (''nearGrid'', JArr (map (\<lambda>row. JArr (map (\<lambda>v. JNum (of_nat v)) row)) (nearGrid s))),
          (''goal'', JObj [(''x'', JNum (of_int (goal_x s)))])]"

text \<open>An object in the narrow sense: neither \<^verbatim>\<open>null\<close> nor an array.\<close>

fun isPlainObject :: "jsval \<Rightarrow> bool" where
  "isPlainObject (JObj _) = True"
| "isPlainObject _ = False"

section \<open>States and inputs used as examples\<close>

definition noKeys :: keys where
  "noKeys = \<lparr> ArrowLeft = False, ArrowRight = False, Space = False, KeyZ = False \<rparr>"

definition jumpHeld :: keys where
  "jumpHeld = \<lparr> ArrowLeft = False, ArrowRight = False, Space = True, KeyZ = False \<rparr>"

text \<open>Standing on the ground in column 116, against the goal pillar of column 117.\<close>

definition standingAtGoal :: player where
  "standingAtGoal = \<lparr> x = 3715, y = 54599 / 100, w = 26, h = 30, vx = 0, vy = 0,
      onGround = True, facing = 1, onGroundLast = True \<rparr>"

text \<open>In the air at the spawn column, a quarter of a pixel above the ground of row 18.\<close>

definition aboutToLand :: player where
  "aboutToLand = \<lparr> x = 64, y = 2183 / 4, w = 26, h = 30, vx = 0, vy = 0,
      onGround = False, facing = 1, onGroundLast = False \<rparr>"

text \<open>
  Three bodies walking right at 180 px/s: on the ground one pixel left of the pillar of
  column 60; beside the same pillar in the air, the bottom edge half a pixel inside tile
  row 17; on the ground one pixel left of the platform of columns 10 to 19.
\<close>

definition besidePillar :: player where
  "besidePillar = \<lparr> x = 1893, y = 54599 / 100, w = 26, h = 30, vx = 180, vy = 0,
      onGround = True, facing = 1, onGroundLast = True \<rparr>"

definition sinkingBesidePillar :: player where
  "sinkingBesidePillar = \<lparr> x = 1893, y = 1029 / 2, w = 26, h = 30, vx = 180, vy = 30,
      onGround = False, facing = 1, onGroundLast = False \<rparr>"

definition beforePlatform :: player where
  "beforePlatform = \<lparr> x = 293, y = 54599 / 100, w = 26, h = 30, vx = 180, vy = 0,
      onGround = True, facing = 1, onGroundLast = True \<rparr>"

text \<open>
  A body falling in the air whose next tick takes it past the goal line; and the body at
  the spawn point with \<^verbatim>\<open>onGroundLast\<close> still set, as the R key leaves it when pressed
  on the ground.
\<close>

definition fallingIntoGoal :: player where
  "fallingIntoGoal = \<lparr> x = 3712, y = 400, w = 26, h = 30, vx = 60, vy = 0,
      onGround = False, facing = 1, onGroundLast = False \<rparr>"

definition respawned :: player where
  "respawned = \<lparr> x = 64, y = 384, w = 26, h = 30, vx = 0, vy = 0,
      onGround = False, facing = 1, onGroundLast = True \<rparr>"

text \<open>A state with a grid of 6 rows of 10 entries, none of them 0 or 1.\<close>

definition oversizedState :: jsval where
  "oversizedState =
    JObj [(''player'', JObj [(''onGround'', JBool False)]),
          (''nearGrid'', JArr (replicate 6 (JArr (JStr (lit ''a'') # replicate 9 (JNum 7)))))]"

text \<open>A snapshot on the ground with a wall in the next column.\<close>

definition wallAhead :: snapshot where
  "wallAhead =
    \<lparr> snap_player = \<lparr> snap_x = 3715, snap_y = 546, snap_vx = 0, snap_vy = 0, snap_onGround = True \<rparr>,
      nearGrid = [[0, 1, 0, 0, 1, 1, 1, 1, 1], [0, 1, 0, 0, 1, 1, 1, 1, 1],
                  [0, 1, 0, 0, 1, 1, 1, 1, 1], [0, 1, 0, 0, 1, 1, 1, 1, 1],
                  [0, 1, 0, 0, 1, 1, 1, 1, 1]],
      goal_x = 3744 \<rparr>"

text \<open>
  Stand-ins for the parameters: a \<^verbatim>\<open>JSON.parse\<close> that knows five texts, a \<^verbatim>\<open>toLowerCase\<close>
  for ASCII text, and a number printer.
\<close>

definition parseStub :: "jsstring \<Rightarrow> jsval option" where
  "parseStub s =
    (if s = lit ''{\"action\":\"LEFT\"}'' then Some (JObj [(''action'', JStr (lit ''LEFT''))])
     else if s = lit ''{\"action\":\"left\"}'' then Some (JObj [(''action'', JStr (lit ''left''))])
     else if s = lit ''{\"action\":\"fly\"}'' then Some (JObj [(''action'', JStr (lit ''fly''))])
     else if s = lit ''{}'' then Some (JObj [])
     else if s = lit ''null'' then Some JNull
     else None)"

definition asciiLower :: "jsstring \<Rightarrow> jsstring" where
  "asciiLower s = map ascii_lower s"

definition printZero :: "real \<Rightarrow> jsstring" where
  "printZero n = lit ''0''"

text \<open>A service that answers \<^verbatim>\<open>{"action":"left"}\<close> after 4 seconds.\<close>

definition lateLeft :: remote where
  "lateLeft = \<lparr> latency = 4000, reply = Resolved (JStr (lit ''{\"action\":\"left\"}'')) \<rparr>"

section \<open>Properties\<close>

lemmas game_consts = TILE_def LEVEL_W_def LEVEL_H_def GRAVITY_def MOVE_ACCEL_def MAX_SPEED_X_def
  JUMP_VY_def FRICTION_def GOAL_X_def FLAGPOLE_TOP_def

lemmas tick = update_def inputStep_def gravityStep_def jumpStep_def moveStep_def goalStep_def
  goalReached_def reset_def rectVsTilesMove_def moveX_def moveY_def Let_def

subsection \<open>The level that \<^verbatim>\<open>makeLevel\<close> builds\<close>

lemma grid_nth: "grid H W lvl \<Longrightarrow> r < H \<Longrightarrow> length (lvl ! r) = W"
  by (simp add: grid_def list_all_length)

lemma grid_length: "grid H W lvl \<Longrightarrow> length lvl = H"
  by (simp add: grid_def)

lemma grid_replicate: "grid H W (replicate H (replicate W v))"
  by (simp add: grid_def list_all_length)

lemma grid_set_cell: "grid H W lvl \<Longrightarrow> grid H W (set_cell lvl i j v)"
proof (cases "i < length lvl")
  case True
  assume "grid H W lvl"
  with True show ?thesis
    unfolding grid_def list_all_length set_cell_def by (simp add: nth_list_update)
next
  case False
  assume "grid H W lvl"
  with False show ?thesis
    unfolding grid_def list_all_length set_cell_def by simp
qed

lemma get_set_cell:
  "grid H W lvl \<Longrightarrow> i < H \<Longrightarrow> j < W \<Longrightarrow> r < H \<Longrightarrow> c < W \<Longrightarrow>
   set_cell lvl i j v ! r ! c = (if r = i \<and> c = j then v else lvl ! r ! c)"
  unfolding grid_def list_all_length set_cell_def by (simp add: nth_list_update)

lemma grid_fold_row: "grid H W lvl \<Longrightarrow> grid H W (fold (\<lambda>j l. set_cell l i j v) js lvl)"
  by (induction js arbitrary: lvl) (auto simp: grid_set_cell)

lemma grid_fold_col: "grid H W lvl \<Longrightarrow> grid H W (fold (\<lambda>i l. set_cell l i j v) rws lvl)"
  by (induction rws arbitrary: lvl) (auto simp: grid_set_cell)

lemma get_fold_row:
  "grid H W lvl \<Longrightarrow> i < H \<Longrightarrow> \<forall>j\<in>set js. j < W \<Longrightarrow> r < H \<Longrightarrow> c < W \<Longrightarrow>
   fold (\<lambda>j l. set_cell l i j v) js lvl ! r ! c = (if r = i \<and> c \<in> set js then v else lvl ! r ! c)"
  by (induction js arbitrary: lvl) (auto simp: grid_set_cell get_set_cell)

lemma get_fold_col:
  "grid H W lvl \<Longrightarrow> j < W \<Longrightarrow> \<forall>i\<in>set rws. i < H \<Longrightarrow> r < H \<Longrightarrow> c < W \<Longrightarrow>
   fold (\<lambda>i l. set_cell l i j v) rws lvl ! r ! c = (if r \<in> set rws \<and> c = j then v else lvl ! r ! c)"
  by (induction rws arbitrary: lvl) (auto simp: grid_set_cell get_set_cell)

lemma grid_fold_block:
  "grid H W lvl \<Longrightarrow> grid H W (fold (\<lambda>j l. fold (\<lambda>i l'. set_cell l' i j v) rws l) js lvl)"
  by (induction js arbitrary: lvl) (auto simp: grid_fold_col)

lemma get_fold_block:
  "grid H W lvl \<Longrightarrow> \<forall>j\<in>set js. j < W \<Longrightarrow> \<forall>i\<in>set rws. i < H \<Longrightarrow> r < H \<Longrightarrow> c < W \<Longrightarrow>
   fold (\<lambda>j l. fold (\<lambda>i l'. set_cell l' i j v) rws l) js lvl ! r ! c =
     (if r \<in> set rws \<and> c \<in> set js then v else lvl ! r ! c)"
  by (induction js arbitrary: lvl) (auto simp: grid_fold_col get_fold_col)

lemma makeLevel_cell:
  assumes r: "r < 20" and c: "c < 120"
  shows "makeLevel ! r ! c =
    (if r = 19 then 1
     else if r = 18 then (if (48 \<le> c \<and> c < 52) \<or> (70 \<le> c \<and> c < 74) then 0 else 1)
     else if r = 17 then
       (if (10 \<le> c \<and> c < 20) \<or> (35 \<le> c \<and> c < 45) \<or> c = 60 \<or> c = 85 \<or> c = 117 then 1 else 0)
     else if r = 16 then (if (22 \<le> c \<and> c < 28) \<or> c = 117 then 1 else 0)
     else if 9 \<le> r then (if c = 117 then 1 else 0)
     else 0)"
proof -
  note [simp del] = upt_rec_numeral
  define L0 where "L0 = replicate 20 (replicate 120 (0::nat))"
  define L1 where "L1 = fold (\<lambda>j l. fold (\<lambda>i l'. set_cell l' i j 1) [18..<20] l) [0..<120] L0"
  define L2 where "L2 = fold (\<lambda>j l. set_cell l 17 j 1) [10..<20] L1"
  define L3 where "L3 = fold (\<lambda>j l. set_cell l 16 j 1) [22..<28] L2"
  define L4 where "L4 = fold (\<lambda>j l. set_cell l 17 j 1) [35..<45] L3"
  define L5 where "L5 = fold (\<lambda>j l. set_cell l 18 j 0) [48..<52] L4"
  define L6 where "L6 = fold (\<lambda>j l. set_cell l 18 j 0) [70..<74] L5"
  define L7 where "L7 = set_cell L6 17 60 1"
  define L8 where "L8 = set_cell L7 17 85 1"
  define L9 where "L9 = fold (\<lambda>i l. set_cell l i 117 1) (rev [9..<18]) L8"
  have g0: "grid 20 120 L0" unfolding L0_def by (rule grid_replicate)
  have g1: "grid 20 120 L1" unfolding L1_def by (rule grid_fold_block [OF g0])
  have g2: "grid 20 120 L2" unfolding L2_def by (rule grid_fold_row [OF g1])
  have g3: "grid 20 120 L3" unfolding L3_def by (rule grid_fold_row [OF g2])
  have g4: "grid 20 120 L4" unfolding L4_def by (rule grid_fold_row [OF g3])
  have g5: "grid 20 120 L5" unfolding L5_def by (rule grid_fold_row [OF g4])
  have g6: "grid 20 120 L6" unfolding L6_def by (rule grid_fold_row [OF g5])
  have g7: "grid 20 120 L7" unfolding L7_def by (rule grid_set_cell [OF g6])
  have g8: "grid 20 120 L8" unfolding L8_def by (rule grid_set_cell [OF g7])
  have c0: "L0 ! r ! c = 0" unfolding L0_def using r c by simp
  have c1: "L1 ! r ! c = (if 18 \<le> r then 1 else L0 ! r ! c)"
    unfolding L1_def using r c by (subst get_fold_block [OF g0]) auto
  have c2: "L2 ! r ! c = (if r = 17 \<and> 10 \<le> c \<and> c < 20 then 1 else L1 ! r ! c)"
    unfolding L2_def using r c by (subst get_fold_row [OF g1]) auto
  have c3: "L3 ! r ! c = (if r = 16 \<and> 22 \<le> c \<and> c < 28 then 1 else L2 ! r ! c)"
    unfolding L3_def using r c by (subst get_fold_row [OF g2]) auto
  have c4: "L4 ! r ! c = (if r = 17 \<and> 35 \<le> c \<and> c < 45 then 1 else L3 ! r ! c)"
    unfolding L4_def using r c by (subst get_fold_row [OF g3]) auto
  have c5: "L5 ! r ! c = (if r = 18 \<and> 48 \<le> c \<and> c < 52 then 0 else L4 ! r ! c)"
    unfolding L5_def using r c by (subst get_fold_row [OF g4]) auto
  have c6: "L6 ! r ! c = (if r = 18 \<and> 70 \<le> c \<and> c < 74 then 0 else L5 ! r ! c)"
    unfolding L6_def using r c by (subst get_fold_row [OF g5]) auto
  have c7: "L7 ! r ! c = (if r = 17 \<and> c = 60 then 1 else L6 ! r ! c)"
    unfolding L7_def using r c by (subst get_set_cell [OF g6]) auto
  have c8: "L8 ! r ! c = (if r = 17 \<and> c = 85 then 1 else L7 ! r ! c)"
    unfolding L8_def using r c by (subst get_set_cell [OF g7]) auto
  have c9: "L9 ! r ! c = (if 9 \<le> r \<and> r < 18 \<and> c = 117 then 1 else L8 ! r ! c)"
    unfolding L9_def using r c by (subst get_fold_col [OF g8]) auto
  have ml: "makeLevel = L9"
    unfolding makeLevel_def Let_def LEVEL_H_def LEVEL_W_def L9_def L8_def L7_def L6_def L5_def
      L4_def L3_def L2_def L1_def L0_def by simp
  show ?thesis
    unfolding ml c9 c8 c7 c6 c5 c4 c3 c2 c1 c0 using r c by auto
qed


text \<open>The solid tiles, in closed form.\<close>

lemma isSolidTile_iff:
  "isSolidTile tx ty \<longleftrightarrow>
     tx < 0 \<or> ty < 0 \<or> 120 \<le> tx \<or> 20 \<le> ty \<or> ty = 19
     \<or> (ty = 18 \<and> \<not> (48 \<le> tx \<and> tx < 52) \<and> \<not> (70 \<le> tx \<and> tx < 74))
     \<or> (ty = 17 \<and> ((10 \<le> tx \<and> tx < 20) \<or> (35 \<le> tx \<and> tx < 45) \<or> tx = 60 \<or> tx = 85))
     \<or> (ty = 16 \<and> 22 \<le> tx \<and> tx < 28)
     \<or> (9 \<le> ty \<and> ty \<le> 17 \<and> tx = 117)"
proof (cases "tx < 0 \<or> ty < 0 \<or> 120 \<le> tx \<or> 20 \<le> ty")
  case True
  then show ?thesis by (auto simp: isSolidTile_def LEVEL_W_def LEVEL_H_def)
next
  case False
  define r where "r = nat ty"
  define c where "c = nat tx"
  have rc: "ty = int r" "tx = int c" "r < 20" "c < 120"
    using False unfolding r_def c_def by linarith+
  have solid: "isSolidTile tx ty \<longleftrightarrow> makeLevel ! r ! c = 1"
    using rc by (simp add: isSolidTile_def WORLD_def LEVEL_W_def LEVEL_H_def)
  consider "r = 19" | "r = 18" | "r = 17" | "r = 16" | "9 \<le> r" "r < 16" | "r < 9"
    using rc(3) by linarith
  then have "makeLevel ! r ! c = 1 \<longleftrightarrow> r = 19
     \<or> (r = 18 \<and> \<not> (48 \<le> c \<and> c < 52) \<and> \<not> (70 \<le> c \<and> c < 74))
     \<or> (r = 17 \<and> ((10 \<le> c \<and> c < 20) \<or> (35 \<le> c \<and> c < 45) \<or> c = 60 \<or> c = 85))
     \<or> (r = 16 \<and> 22 \<le> c \<and> c < 28)
     \<or> (9 \<le> r \<and> r \<le> 17 \<and> c = 117)"
  proof cases
    case 1
    then show ?thesis unfolding makeLevel_cell [OF rc(3,4)] by simp
  next
    case 2
    then show ?thesis unfolding makeLevel_cell [OF rc(3,4)] by simp
  next
    case 3
    then show ?thesis unfolding makeLevel_cell [OF rc(3,4)] by simp
  next
    case 4
    then show ?thesis unfolding makeLevel_cell [OF rc(3,4)] by simp
  next
    case 5
    then show ?thesis unfolding makeLevel_cell [OF rc(3,4)] by simp
  next
    case 6
    then show ?thesis unfolding makeLevel_cell [OF rc(3,4)] by simp
  qed
  with solid show ?thesis using rc by simp
qed


text \<open>The scanning loops find a solid tile exactly when there is one in the range.\<close>

lemma scanColumn_iff:
  "scanColumn xTile yTop yBot \<longleftrightarrow> (\<exists>ty. yTop \<le> ty \<and> ty \<le> yBot \<and> isSolidTile xTile ty)"
proof (induction xTile yTop yBot rule: scanColumn.induct)
  case (1 xTile ty yBot)
  show ?case
  proof (cases "ty \<le> yBot \<and> \<not> isSolidTile xTile ty")
    case True
    then have "scanColumn xTile ty yBot = scanColumn xTile (ty + 1) yBot"
      by (subst scanColumn.simps) simp
    also have "\<dots> \<longleftrightarrow> (\<exists>t. ty + 1 \<le> t \<and> t \<le> yBot \<and> isSolidTile xTile t)"
      using True by (intro "1.IH") auto
    also have "\<dots> \<longleftrightarrow> (\<exists>t. ty \<le> t \<and> t \<le> yBot \<and> isSolidTile xTile t)"
      using True by (metis add1_zle_eq order_le_less)
    finally show ?thesis .
  next
    case False
    then show ?thesis by (subst scanColumn.simps) auto
  qed
qed

lemma scanRow_iff:
  "scanRow yTile xLeft xRight \<longleftrightarrow> (\<exists>tx. xLeft \<le> tx \<and> tx \<le> xRight \<and> isSolidTile tx yTile)"
proof (induction yTile xLeft xRight rule: scanRow.induct)
  case (1 yTile tx xRight)
  show ?case
  proof (cases "tx \<le> xRight \<and> \<not> isSolidTile tx yTile")
    case True
    then have "scanRow yTile tx xRight = scanRow yTile (tx + 1) xRight"
      by (subst scanRow.simps) simp
    also have "\<dots> \<longleftrightarrow> (\<exists>t. tx + 1 \<le> t \<and> t \<le> xRight \<and> isSolidTile t yTile)"
      using True by (intro "1.IH") auto
    also have "\<dots> \<longleftrightarrow> (\<exists>t. tx \<le> t \<and> t \<le> xRight \<and> isSolidTile t yTile)"
      using True by (metis add1_zle_eq order_le_less)
    finally show ?thesis .
  next
    case False
    then show ?thesis by (subst scanRow.simps) auto
  qed
qed


text \<open>Facts that evaluate a tick on a concrete state.\<close>

lemmas tick_eval = tick game_consts scanRow.simps scanColumn.simps isSolidTile_iff

subsection \<open>The closed world\<close>

text \<open>
  Claim C4. For every integer tile coordinate outside the grid, that is with a negative
  column or row, a column of at least 120 or a row of at least 20, \<^verbatim>\<open>isSolidTile\<close>
  answers true.
\<close>

theorem isSolidTile_outside:
  "col < 0 \<or> row < 0 \<or> col \<ge> 120 \<or> row \<ge> 20 \<Longrightarrow> isSolidTile col row"
  by (auto simp: isSolidTile_def LEVEL_W_def LEVEL_H_def)

theorem isSolidTile_outside_witness:
  "((-1::int) < 0 \<or> (5::int) < 0 \<or> (-1::int) \<ge> 120 \<or> (5::int) \<ge> 20) \<and> isSolidTile (-1) 5
   \<and> isSolidTile 120 0 \<and> isSolidTile 3 20 \<and> isSolidTile 3 (-1)"
  using isSolidTile_outside [of "-1" 5] isSolidTile_outside [of 120 0]
    isSolidTile_outside [of 3 20] isSolidTile_outside [of 3 "-1"]
  by simp

subsection \<open>The jump impulse\<close>

text \<open>
  Claim C2. The jump impulse is to be applied only when the jump input rises (down in this
  tick, up in the one before) while \<^verbatim>\<open>onGroundLast\<close> is true, so that an input held
  across ticks applies none; the comments of the code say the same
  (\<^verbatim>\<open>Jump is edge-triggered\<close>, \<^verbatim>\<open>Track ground state for jump edge\<close>). But \<^verbatim>\<open>update\<close>
  keeps no earlier key state. Here Space is down through two ticks: the first finds
  \<^verbatim>\<open>onGroundLast\<close> false, applies no impulse and lands the body; the second, in which
  the input does not rise, sets \<open>vy\<close> to \<^verbatim>\<open>JUMP_VY\<close> and the body leaves the ground.
\<close>

theorem held_jump_reapplies_impulse:
  "Space jumpHeld
   \<and> \<not> onGroundLast aboutToLand
   \<and> vy (update jumpHeld (1 / 60) aboutToLand) = 0
   \<and> onGroundLast (update jumpHeld (1 / 60) aboutToLand)
   \<and> vy (update jumpHeld (1 / 60) (update jumpHeld (1 / 60) aboutToLand)) = JUMP_VY
   \<and> y (update jumpHeld (1 / 60) (update jumpHeld (1 / 60) aboutToLand))
       < y (update jumpHeld (1 / 60) aboutToLand)"
proof -
  have first: "update jumpHeld (1 / 60) aboutToLand =
     \<lparr> x = 64, y = 54599 / 100, w = 26, h = 30, vx = 0, vy = 0,
        onGround = True, facing = 1, onGroundLast = True \<rparr>"
    by (simp add: tick_eval jumpHeld_def aboutToLand_def)
  have second: "update jumpHeld (1 / 60)
       \<lparr> x = 64, y = 54599 / 100, w = 26, h = 30, vx = 0, vy = 0,
         onGround = True, facing = 1, onGroundLast = True \<rparr> =
     \<lparr> x = 64, y = 161197 / 300, w = 26, h = 30, vx = 0, vy = - 520,
        onGround = False, facing = 1, onGroundLast = False \<rparr>"
    by (simp add: tick_eval jumpHeld_def)
  show ?thesis
    unfolding first second by (simp add: jumpHeld_def aboutToLand_def JUMP_VY_def)
qed

subsection \<open>The goal\<close>

lemma size_inputStep: "w (inputStep k dt p) = w p \<and> h (inputStep k dt p) = h p"
  by (simp add: inputStep_def Let_def split_beta)

lemma size_moveX: "w (moveX p dx) = w p \<and> h (moveX p dx) = h p"
  by (simp add: moveX_def Let_def)

lemma size_moveY: "w (moveY p dy) = w p \<and> h (moveY p dy) = h p"
  by (simp add: moveY_def Let_def)

lemma size_moveStep: "w (moveStep dt p) = w p \<and> h (moveStep dt p) = h p"
  by (simp add: moveStep_def rectVsTilesMove_def Let_def size_moveX size_moveY)

lemma size_before_goal:
  "w (moveStep dt (jumpStep k (gravityStep dt (inputStep k dt p)))) = w p
   \<and> h (moveStep dt (jumpStep k (gravityStep dt (inputStep k dt p)))) = h p"
  by (simp add: size_moveStep jumpStep_def gravityStep_def size_inputStep Let_def)

text \<open>
  Claim C7, as the code has it. A tick ends in the spawn state (x of 2 tiles, y of 12
  tiles, no velocity, not grounded, facing right, size unchanged) exactly when, after the
  tick's movement, x exceeds \<^verbatim>\<open>GOAL_X - TILE\<close> = 3712 and y is less than
  \<^verbatim>\<open>(LEVEL_H - 3) * TILE\<close> = 544, that is the top of the body is higher than the top of
  tile row 17; otherwise the moved body is left as it is.
\<close>

theorem goal_reset_iff:
  "update k dt p =
    (let q = moveStep dt (jumpStep k (gravityStep dt (inputStep k dt p)))
     in if x q > 3712 \<and> y q < 544
        then \<lparr> x = 64, y = 384, w = w p, h = h p, vx = 0, vy = 0,
               onGround = False, facing = 1, onGroundLast = False \<rparr>
        else q\<lparr> onGroundLast := onGround q \<rparr>)"
  by (simp add: update_def goalStep_def goalReached_def reset_def Let_def game_consts
      size_before_goal)

text \<open>
  A body that stands on the ground against the goal pillar has x beyond the goal minus one
  tile and is below the top of the flagpole, and a tick does not reset it.
\<close>

theorem goal_reset_counterexample:
  "x (update noKeys (1 / 60) standingAtGoal) > of_int (GOAL_X - TILE)
   \<and> y (update noKeys (1 / 60) standingAtGoal) > of_int FLAGPOLE_TOP
   \<and> x (update noKeys (1 / 60) standingAtGoal) = 3715
   \<and> y (update noKeys (1 / 60) standingAtGoal) = 54599 / 100
   \<and> onGround (update noKeys (1 / 60) standingAtGoal)"
proof -
  have "update noKeys (1 / 60) standingAtGoal = standingAtGoal"
    by (simp add: tick_eval noKeys_def standingAtGoal_def)
  then show ?thesis
    by (simp add: standingAtGoal_def game_consts)
qed


subsection \<open>The perception snapshot\<close>

lemma grid_fold_cells_row:
  "grid H W lvl \<Longrightarrow> grid H W (fold (\<lambda>j l. set_cell l i j (f j)) js lvl)"
  by (induction js arbitrary: lvl) (auto simp: grid_set_cell)

lemma get_fold_cells_row:
  "grid H W lvl \<Longrightarrow> i < H \<Longrightarrow> \<forall>j\<in>set js. j < W \<Longrightarrow> r < H \<Longrightarrow> c < W \<Longrightarrow>
   fold (\<lambda>j l. set_cell l i j (f j)) js lvl ! r ! c = (if r = i \<and> c \<in> set js then f c else lvl ! r ! c)"
  by (induction js arbitrary: lvl) (auto simp: grid_set_cell get_set_cell)

lemma grid_fold_cells:
  "grid H W lvl \<Longrightarrow> grid H W (fold (\<lambda>i l. fold (\<lambda>j l'. set_cell l' i j (f i j)) js l) rws lvl)"
  by (induction rws arbitrary: lvl) (auto simp: grid_fold_cells_row)

lemma get_fold_cells:
  "grid H W lvl \<Longrightarrow> \<forall>i\<in>set rws. i < H \<Longrightarrow> \<forall>j\<in>set js. j < W \<Longrightarrow> r < H \<Longrightarrow> c < W \<Longrightarrow>
   fold (\<lambda>i l. fold (\<lambda>j l'. set_cell l' i j (f i j)) js l) rws lvl ! r ! c =
     (if r \<in> set rws \<and> c \<in> set js then f r c else lvl ! r ! c)"
  by (induction rws arbitrary: lvl) (auto simp: grid_fold_cells_row get_fold_cells_row)

lemma nearGrid_grid: "grid 5 9 (nearGrid (snapshotState p))"
  unfolding snapshotState_def Let_def
  by (simp del: upt_rec_numeral add: grid_fold_cells grid_replicate)

text \<open>
  Claim C3. The cell of \<^verbatim>\<open>nearGrid\<close> at row \<open>r\<close> and column \<open>c\<close>, for \<open>r < 5\<close> and
  \<open>c < 9\<close>, is 1 when \<^verbatim>\<open>isSolidTile(footCol + c, footRow - r)\<close> and 0 otherwise, where
  \<open>footCol\<close> is the floor of \<open>(x + w/2) / TILE\<close> and \<open>footRow\<close> the floor of
  \<open>(y + h) / TILE\<close>.
\<close>

theorem nearGrid_cell:
  assumes "r < 5" and "c < 9"
  shows "nearGrid (snapshotState p) ! r ! c =
    (if isSolidTile (\<lfloor>(x p + w p / 2) / of_int TILE\<rfloor> + int c)
                    (\<lfloor>(y p + h p) / of_int TILE\<rfloor> - int r) then 1 else 0)"
proof -
  have "nearGrid (snapshotState p) ! r ! c =
      (if r \<in> set [0..<5] \<and> c \<in> set [0..<9]
       then (if isSolidTile (\<lfloor>(x p + w p / 2) / of_int TILE\<rfloor> + int c)
                            (\<lfloor>(y p + h p) / of_int TILE\<rfloor> - int r)
             then 1 else 0)
       else replicate 5 (replicate 9 (0::nat)) ! r ! c)"
    unfolding snapshotState_def Let_def using assms
    by (simp del: upt_rec_numeral
        add: get_fold_cells [where H = 5 and W = 9] grid_replicate)
  then show ?thesis using assms by (simp del: upt_rec_numeral)
qed

theorem nearGrid_cell_witness:
  "(0::nat) < 5 \<and> (1::nat) < 9
   \<and> nearGrid (snapshotState standingAtGoal) ! 0 ! 1 = 1
   \<and> nearGrid (snapshotState standingAtGoal) ! 0 ! 0 = 0
   \<and> nearGrid (snapshotState standingAtGoal) ! 4 ! 8 = 1"
  using nearGrid_cell [of 0 1 standingAtGoal] nearGrid_cell [of 0 0 standingAtGoal]
    nearGrid_cell [of 4 8 standingAtGoal]
  by (simp add: standingAtGoal_def TILE_def isSolidTile_iff)

text \<open>
  Claim C9. The snapshot reports \<^verbatim>\<open>Math.round\<close> of the body's x, y, vx and vy: an integer
  at most one half away from the simulation's value; and it reports the grounded flag as
  a boolean.
\<close>

theorem snapshot_rounds:
  "snap_x (snap_player (snapshotState p)) = of_int \<lfloor>x p + 1 / 2\<rfloor>
   \<and> snap_y (snap_player (snapshotState p)) = of_int \<lfloor>y p + 1 / 2\<rfloor>
   \<and> snap_vx (snap_player (snapshotState p)) = of_int \<lfloor>vx p + 1 / 2\<rfloor>
   \<and> snap_vy (snap_player (snapshotState p)) = of_int \<lfloor>vy p + 1 / 2\<rfloor>
   \<and> \<bar>snap_x (snap_player (snapshotState p)) - x p\<bar> \<le> 1 / 2
   \<and> \<bar>snap_y (snap_player (snapshotState p)) - y p\<bar> \<le> 1 / 2
   \<and> \<bar>snap_vx (snap_player (snapshotState p)) - vx p\<bar> \<le> 1 / 2
   \<and> \<bar>snap_vy (snap_player (snapshotState p)) - vy p\<bar> \<le> 1 / 2
   \<and> snap_onGround (snap_player (snapshotState p)) = onGround p"
proof -
  have near: "\<bar>js_round v - v\<bar> \<le> 1 / 2" for v :: real
    unfolding js_round_def by linarith
  have sel: "snap_x (snap_player (snapshotState p)) = js_round (x p)"
    "snap_y (snap_player (snapshotState p)) = js_round (y p)"
    "snap_vx (snap_player (snapshotState p)) = js_round (vx p)"
    "snap_vy (snap_player (snapshotState p)) = js_round (vy p)"
    "snap_onGround (snap_player (snapshotState p)) = onGround p"
    by (simp_all add: snapshotState_def Let_def)
  show ?thesis
    unfolding sel using near [of "x p"] near [of "y p"] near [of "vx p"] near [of "vy p"]
    by (simp add: js_round_def)
qed


subsection \<open>Horizontal collision resolution\<close>

lemma floor32_le_iff: "\<lfloor>a / 32\<rfloor> \<le> k \<longleftrightarrow> a < of_int k * 32 + (32::real)"
  by (simp add: floor_le_iff)

lemma le_floor32_iff: "k \<le> \<lfloor>a / 32\<rfloor> \<longleftrightarrow> of_int k * (32::real) \<le> a"
  by (simp add: le_floor_iff)

lemma less_ceiling32_iff: "k < \<lceil>b / 32\<rceil> \<longleftrightarrow> of_int k * (32::real) < b"
  by (simp add: less_ceiling_iff)

lemma floor32_bounds:
  "of_int \<lfloor>a / 32\<rfloor> * (32::real) \<le> a" "a < of_int \<lfloor>a / 32\<rfloor> * 32 + (32::real)"
  using le_floor32_iff [of "\<lfloor>a / 32\<rfloor>" a] floor32_le_iff [of a "\<lfloor>a / 32\<rfloor>"] by simp_all

lemma in_columns_iff:
  fixes a b :: real
  shows "tx \<in> set [\<lfloor>a / of_int TILE\<rfloor> .. \<lceil>b / of_int TILE\<rceil> - 1]
     \<longleftrightarrow> a < of_int tx * 32 + 32 \<and> of_int tx * 32 < b"
proof -
  have "tx \<le> \<lceil>b / 32\<rceil> - 1 \<longleftrightarrow> tx < \<lceil>b / 32\<rceil>" by linarith
  then show ?thesis
    by (simp add: TILE_def floor32_le_iff less_ceiling32_iff)
qed


lemma clearX_iff:
  "clearX p \<longleftrightarrow>
    (\<forall>tx ty. x p < of_int tx * 32 + 32 \<and> of_int tx * 32 < x p + w p
        \<and> yTopOf p \<le> ty \<and> ty \<le> yBotOf p \<longrightarrow> \<not> isSolidTile tx ty)"
  unfolding clearX_def Ball_def in_columns_iff scanColumn_iff by blast

lemma moveX_alt:
  "moveX p dx =
    (if dx = 0 then p
     else if blockedX p dx
       then p\<lparr> vx := 0,
               x := (if dx > 0 then of_int (xTileOf p dx * TILE) - w p - 1 / 100
                     else of_int ((xTileOf p dx + 1) * TILE) + 1 / 100) \<rparr>
     else p\<lparr> x := x p + dx \<rparr>)"
  unfolding moveX_def blockedX_def xTileOf_def yTopOf_def yBotOf_def Let_def
  by (simp add: add.assoc)

lemma rows_moveX: "yTopOf (moveX p dx) = yTopOf p \<and> yBotOf (moveX p dx) = yBotOf p"
  by (simp add: moveX_alt yTopOf_def yBotOf_def)

lemma tile_lt: "of_int i * 32 < of_int j * 32 + (32::real) \<Longrightarrow> i \<le> j"
proof -
  assume "of_int i * 32 < of_int j * 32 + (32::real)"
  then have "(of_int i :: real) < of_int (j + 1)" by simp
  then have "i < j + 1" by (simp only: of_int_less_iff)
  then show ?thesis by simp
qed

lemma tile_le: "i + 1 \<le> j \<Longrightarrow> of_int i * 32 + 32 \<le> of_int j * (32::real)"
proof -
  assume "i + 1 \<le> j"
  then have "(of_int (i + 1) :: real) \<le> of_int j" by (simp only: of_int_le_iff)
  then show ?thesis by simp
qed

lemma clearX_moveX:
  assumes w: "0 < w p" "w p \<le> 32 - 1 / 100" and dx: "\<bar>dx\<bar> < 32" "dx \<noteq> 0"
    and clear: "clearX p"
  shows "clearX (moveX p dx)"
proof -
  define a where "a = (if dx > 0 then x p + dx + w p else x p + dx)"
  define k where "k = xTileOf p dx"
  have k: "of_int k * 32 \<le> a" "a < of_int k * 32 + 32"
    using floor32_bounds [of a] unfolding k_def xTileOf_def a_def TILE_def by simp_all
  have hit_iff: "blockedX p dx \<longleftrightarrow> (\<exists>t. yTopOf p \<le> t \<and> t \<le> yBotOf p \<and> isSolidTile k t)"
    by (simp add: blockedX_def scanColumn_iff k_def)
  have pclear: "\<not> isSolidTile tx ty"
    if "x p < of_int tx * 32 + 32" "of_int tx * 32 < x p + w p" "yTopOf p \<le> ty" "ty \<le> yBotOf p"
    for tx ty
    using clear that unfolding clearX_iff by blast
  have wq: "w (moveX p dx) = w p"
    by (simp add: moveX_alt)
  show ?thesis
    unfolding clearX_iff [of "moveX p dx"] rows_moveX [THEN conjunct1] rows_moveX [THEN conjunct2] wq
  proof (intro allI impI, elim conjE)
    fix tx ty
    assume q1: "x (moveX p dx) < of_int tx * 32 + 32"
      and q2: "of_int tx * 32 < x (moveX p dx) + w p"
      and r: "yTopOf p \<le> ty" "ty \<le> yBotOf p"
    show "\<not> isSolidTile tx ty"
    proof (cases "blockedX p dx")
      case False
      then have xq: "x (moveX p dx) = x p + dx"
        using dx(2) by (simp add: moveX_alt)
      have free: "\<not> isSolidTile k ty"
        using False r hit_iff by blast
      show ?thesis
      proof (cases "dx > 0")
        case True
        then have a: "a = x p + dx + w p" by (simp add: a_def)
        have "of_int tx * 32 < of_int k * 32 + (32::real)"
          using q2 k(2) xq a by linarith
        then have "tx \<le> k" by (rule tile_lt)
        then consider "tx = k" | "tx + 1 \<le> k" by linarith
        then show ?thesis
        proof cases
          case 1
          then show ?thesis using free by simp
        next
          case 2
          from tile_le [OF 2] have "of_int tx * 32 + 32 \<le> of_int k * (32::real)" .
          then have "of_int tx * 32 < x p + w p"
            using k(1) a dx(1) by linarith
          moreover have "x p < of_int tx * 32 + 32"
            using q1 xq True by linarith
          ultimately show ?thesis using pclear r by blast
        qed
      next
        case neg: False
        then have a: "a = x p + dx" and dneg: "dx < 0"
          using dx(2) by (simp_all add: a_def)
        have "of_int k * 32 < of_int tx * 32 + (32::real)"
          using q1 k(1) xq a by linarith
        then have "k \<le> tx" by (rule tile_lt)
        then consider "tx = k" | "k + 1 \<le> tx" by linarith
        then show ?thesis
        proof cases
          case 1
          then show ?thesis using free by simp
        next
          case 2
          from tile_le [OF 2] have "of_int k * 32 + 32 \<le> of_int tx * (32::real)" .
          then have "x p < of_int tx * 32 + 32"
            using k(2) a dx(1) by linarith
          moreover have "of_int tx * 32 < x p + w p"
            using q2 xq dneg by linarith
          ultimately show ?thesis using pclear r by blast
        qed
      qed
    next
      case True
      then obtain t where t: "yTopOf p \<le> t" "t \<le> yBotOf p" "isSolidTile k t"
        using hit_iff by blast
      show ?thesis
      proof (cases "dx > 0")
        case pos: True
        then have a: "a = x p + dx + w p" by (simp add: a_def)
        have xq: "x (moveX p dx) = of_int k * 32 - w p - 1 / 100"
          using True pos dx(2) by (simp add: moveX_alt k_def TILE_def)
        have "of_int tx * 32 < of_int (k - 1) * 32 + (32::real)"
          using q2 xq by simp
        then have le: "tx \<le> k - 1" by (rule tile_lt)
        have "of_int (k - 1) * 32 < of_int tx * 32 + (32::real)"
          using q1 xq w(2) by simp
        then have "k - 1 \<le> tx" by (rule tile_lt)
        with le have tx: "tx = k - 1" by simp
        have lower: "of_int tx * 32 < x p + w p"
          using k(1) a dx(1) tx by simp
        show ?thesis
        proof (cases "x p < of_int tx * 32 + 32")
          case True
          then show ?thesis using lower pclear r by blast
        next
          case False
          then have "of_int k * 32 < x p + w p"
            using w(1) tx by simp
          moreover have "x p < of_int k * 32 + 32"
            using k(2) a pos w(1) by linarith
          ultimately have "\<not> isSolidTile k t" using pclear t by blast
          then show ?thesis using t by simp
        qed
      next
        case neg: False
        then have a: "a = x p + dx" and dneg: "dx < 0"
          using dx(2) by (simp_all add: a_def)
        have xq: "x (moveX p dx) = of_int k * 32 + 32 + 1 / 100"
          using True neg dx(2) by (simp add: moveX_alt k_def TILE_def)
        have "of_int (k + 1) * 32 < of_int tx * 32 + (32::real)"
          using q1 xq by simp
        then have le: "k + 1 \<le> tx" by (rule tile_lt)
        have "of_int tx * 32 < of_int (k + 1) * 32 + (32::real)"
          using q2 xq w(2) by simp
        then have "tx \<le> k + 1" by (rule tile_lt)
        with le have tx: "tx = k + 1" by simp
        have upper: "x p < of_int tx * 32 + 32"
          using k(2) a dx(1) tx by simp
        show ?thesis
        proof (cases "of_int tx * 32 < x p + w p")
          case True
          then show ?thesis using upper pclear r by blast
        next
          case False
          then have "x p < of_int k * 32 + 32"
            using w(1) tx by simp
          moreover have "of_int k * 32 < x p + w p"
            using k(1) a dneg w(1) by linarith
          ultimately have "\<not> isSolidTile k t" using pclear t by blast
          then show ?thesis using t by simp
        qed
      qed
    qed
  qed
qed

lemma overlapX_le_0_iff:
  "0 < w p \<Longrightarrow> overlapX p tx \<le> 0 \<longleftrightarrow> \<not> (x p < of_int tx * 32 + 32 \<and> of_int tx * 32 < x p + w p)"
  unfolding overlapX_def TILE_def by (simp add: min_def max_def) linarith

lemma clearX_overlap:
  assumes "0 < w p"
  shows "clearX p \<longleftrightarrow>
    (\<forall>tx ty. yTopOf p \<le> ty \<and> ty \<le> yBotOf p \<and> isSolidTile tx ty \<longrightarrow> overlapX p tx \<le> 0)"
  unfolding clearX_iff overlapX_le_0_iff [OF assms] by blast

text \<open>
  Claim C1, as the code has it. For a horizontal delta other than 0: the pass is blocked
  exactly when the column of the target leading edge has a solid tile in the rows
  \<open>\<lfloor>y / TILE\<rfloor>\<close> to \<open>\<lfloor>(y + h - 1) / TILE\<rfloor>\<close>; when blocked it sets \<open>vx\<close> to 0 and leaves the
  leading edge exactly 0.01 short of that column's near boundary; when not blocked the body
  moves by the whole delta and keeps \<open>vx\<close>. If moreover the body is at most a tile less
  0.01 wide, the delta is shorter than a tile, and before the move the box met no solid
  tile in those rows, then after the move it meets no solid tile in those rows.
\<close>

theorem moveX_resolution:
  assumes "dx \<noteq> 0"
  shows "(blockedX p dx \<longleftrightarrow>
            (\<exists>ty. yTopOf p \<le> ty \<and> ty \<le> yBotOf p \<and> isSolidTile (xTileOf p dx) ty))
    \<and> (blockedX p dx \<longrightarrow>
          vx (moveX p dx) = 0
          \<and> (if dx > 0 then x (moveX p dx) + w p = of_int (xTileOf p dx * TILE) - 1 / 100
              else x (moveX p dx) = of_int ((xTileOf p dx + 1) * TILE) + 1 / 100))
    \<and> (\<not> blockedX p dx \<longrightarrow> x (moveX p dx) = x p + dx \<and> vx (moveX p dx) = vx p)
    \<and> (0 < w p \<and> w p \<le> of_int TILE - 1 / 100 \<and> \<bar>dx\<bar> < of_int TILE \<and> clearX p \<longrightarrow>
          (\<forall>tx ty. yTopOf p \<le> ty \<and> ty \<le> yBotOf p \<and> isSolidTile tx ty
              \<longrightarrow> overlapX (moveX p dx) tx \<le> 0))"
proof -
  have 1: "blockedX p dx \<longleftrightarrow>
            (\<exists>ty. yTopOf p \<le> ty \<and> ty \<le> yBotOf p \<and> isSolidTile (xTileOf p dx) ty)"
    by (simp add: blockedX_def scanColumn_iff)
  have 2: "blockedX p dx \<longrightarrow>
          vx (moveX p dx) = 0
          \<and> (if dx > 0 then x (moveX p dx) + w p = of_int (xTileOf p dx * TILE) - 1 / 100
              else x (moveX p dx) = of_int ((xTileOf p dx + 1) * TILE) + 1 / 100)"
    using assms by (simp add: moveX_alt)
  have 3: "\<not> blockedX p dx \<longrightarrow> x (moveX p dx) = x p + dx \<and> vx (moveX p dx) = vx p"
    using assms by (simp add: moveX_alt)
  have 4: "0 < w p \<and> w p \<le> of_int TILE - 1 / 100 \<and> \<bar>dx\<bar> < of_int TILE \<and> clearX p \<longrightarrow>
          (\<forall>tx ty. yTopOf p \<le> ty \<and> ty \<le> yBotOf p \<and> isSolidTile tx ty
              \<longrightarrow> overlapX (moveX p dx) tx \<le> 0)"
  proof
    assume a: "0 < w p \<and> w p \<le> of_int TILE - 1 / 100 \<and> \<bar>dx\<bar> < of_int TILE \<and> clearX p"
    then have "clearX (moveX p dx)"
      using assms by (intro clearX_moveX) (simp_all add: TILE_def)
    moreover have "0 < w (moveX p dx)"
      using a by (simp add: moveX_alt)
    ultimately show "\<forall>tx ty. yTopOf p \<le> ty \<and> ty \<le> yBotOf p \<and> isSolidTile tx ty
              \<longrightarrow> overlapX (moveX p dx) tx \<le> 0"
      using clearX_overlap [of "moveX p dx"] rows_moveX [of p dx] by simp
  qed
  from 1 2 3 4 show ?thesis by blast
qed

lemma rows_besidePillar: "yTopOf besidePillar = 17 \<and> yBotOf besidePillar = 17"
  by (simp add: yTopOf_def yBotOf_def besidePillar_def TILE_def)

lemma clearX_besidePillar: "clearX besidePillar"
  unfolding clearX_def rows_besidePillar [THEN conjunct1] rows_besidePillar [THEN conjunct2]
  by (simp add: besidePillar_def TILE_def scanColumn.simps isSolidTile_iff)

theorem moveX_resolution_witness:
  "(3::real) \<noteq> 0 \<and> (- 3::real) \<noteq> 0
   \<and> blockedX besidePillar 3
   \<and> vx (moveX besidePillar 3) = 0
   \<and> x (moveX besidePillar 3) + w besidePillar = 1920 - 1 / 100
   \<and> \<not> blockedX besidePillar (- 3)
   \<and> x (moveX besidePillar (- 3)) = 1890
   \<and> vx (moveX besidePillar (- 3)) = 180
   \<and> clearX besidePillar
   \<and> isSolidTile 60 17
   \<and> overlapX (moveX besidePillar 3) 60 \<le> 0"
proof -
  have b: "blockedX besidePillar 3"
    unfolding blockedX_def rows_besidePillar [THEN conjunct1] rows_besidePillar [THEN conjunct2]
    by (simp add: xTileOf_def besidePillar_def TILE_def scanColumn.simps isSolidTile_iff)
  have nb: "\<not> blockedX besidePillar (- 3)"
    unfolding blockedX_def rows_besidePillar [THEN conjunct1] rows_besidePillar [THEN conjunct2]
    by (simp add: xTileOf_def besidePillar_def TILE_def scanColumn.simps isSolidTile_iff)
  have x60: "xTileOf besidePillar 3 = 60"
    by (simp add: xTileOf_def besidePillar_def TILE_def)
  have x59: "xTileOf besidePillar (- 3) = 59"
    by (simp add: xTileOf_def besidePillar_def TILE_def)
  have s: "isSolidTile 60 17"
    by (simp add: isSolidTile_iff)
  have hyp: "0 < w besidePillar \<and> w besidePillar \<le> of_int TILE - 1 / 100
      \<and> \<bar>3::real\<bar> < of_int TILE \<and> clearX besidePillar"
    using clearX_besidePillar by (simp add: besidePillar_def TILE_def)
  from moveX_resolution [of 3 besidePillar] b hyp s rows_besidePillar x60
  have r3: "vx (moveX besidePillar 3) = 0"
    "x (moveX besidePillar 3) + w besidePillar = 1920 - 1 / 100"
    "overlapX (moveX besidePillar 3) 60 \<le> 0"
    by (simp_all add: TILE_def)
  from moveX_resolution [of "- 3" besidePillar] nb
  have r4: "x (moveX besidePillar (- 3)) = 1890" "vx (moveX besidePillar (- 3)) = 180"
    by (simp_all add: besidePillar_def)
  from b nb r3 r4 s clearX_besidePillar show ?thesis by simp
qed

text \<open>
  The overlap bound of the claim fails on the code. A body in the air beside the pillar,
  its bottom edge half a pixel inside row 17, moves 3 pixels unopposed and then overlaps
  the solid tile (60, 17) by 2 pixels across and half a pixel down: the pass scans rows up
  to \<open>\<lfloor>(y + h - 1) / TILE\<rfloor>\<close> only. A body moved by 40 pixels, more than a tile, is stopped
  by the second tile of a platform and left inside the first.
\<close>

theorem moveX_overlap_counterexample:
  "clearX sinkingBesidePillar
   \<and> \<bar>3::real\<bar> < of_int TILE
   \<and> isSolidTile 60 17
   \<and> x (moveX sinkingBesidePillar 3) = 1896
   \<and> vx (moveX sinkingBesidePillar 3) = 180
   \<and> overlapX (moveX sinkingBesidePillar 3) 60 = 2
   \<and> overlapY (moveX sinkingBesidePillar 3) 17 = 1 / 2
   \<and> clearX beforePlatform
   \<and> isSolidTile 10 17
   \<and> blockedX beforePlatform 40
   \<and> overlapX (moveX beforePlatform 40) 10 = 26
   \<and> overlapY (moveX beforePlatform 40) 17 = 30"
proof -
  have rows1: "yTopOf sinkingBesidePillar = 16" "yBotOf sinkingBesidePillar = 16"
    by (simp_all add: yTopOf_def yBotOf_def sinkingBesidePillar_def TILE_def)
  have c1: "clearX sinkingBesidePillar"
    unfolding clearX_def rows1
    by (simp add: sinkingBesidePillar_def TILE_def scanColumn.simps isSolidTile_iff)
  have nb: "\<not> blockedX sinkingBesidePillar 3"
    unfolding blockedX_def rows1
    by (simp add: xTileOf_def sinkingBesidePillar_def TILE_def scanColumn.simps isSolidTile_iff)
  have m1: "moveX sinkingBesidePillar 3 = sinkingBesidePillar\<lparr> x := 1896 \<rparr>"
    using nb by (simp add: moveX_alt sinkingBesidePillar_def)
  have rows2: "yTopOf beforePlatform = 17" "yBotOf beforePlatform = 17"
    by (simp_all add: yTopOf_def yBotOf_def beforePlatform_def TILE_def)
  have c2: "clearX beforePlatform"
    unfolding clearX_def rows2
    by (simp add: beforePlatform_def TILE_def scanColumn.simps isSolidTile_iff)
  have b: "blockedX beforePlatform 40"
    unfolding blockedX_def rows2
    by (simp add: xTileOf_def beforePlatform_def TILE_def scanColumn.simps isSolidTile_iff)
  have m2: "moveX beforePlatform 40 = beforePlatform\<lparr> vx := 0, x := 32599 / 100 \<rparr>"
    using b by (simp add: moveX_alt xTileOf_def beforePlatform_def TILE_def)
  show ?thesis
    unfolding m1 m2 using c1 c2 b
    by (simp add: overlapX_def overlapY_def sinkingBesidePillar_def beforePlatform_def TILE_def
        isSolidTile_iff)
qed

subsection \<open>Free fall\<close>

lemma moveY_alt:
  "moveY p dy =
    (if dy = 0 then p
     else if blockedY p dy
       then p\<lparr> vy := 0, onGround := (if dy > 0 then True else onGround p),
               y := (if dy > 0 then of_int (yTileOf p dy * TILE) - h p - 1 / 100
                     else of_int ((yTileOf p dy + 1) * TILE) + 1 / 100) \<rparr>
     else p\<lparr> y := y p + dy \<rparr>)"
  unfolding moveY_def blockedY_def yTileOf_def Let_def
  by (simp add: add.assoc)

lemma beforeMove_fields:
  "y (beforeMove k dt p) = y p" "onGround (beforeMove k dt p) = False"
  "vy (beforeMove k dt p) = (if jumps k p then JUMP_VY else vy p + GRAVITY * dt)"
  by (simp_all add: beforeMove_def jumpStep_def gravityStep_def inputStep_def jumps_def Let_def
      split_beta)

lemma afterMoveX_fields:
  "y (afterMoveX k dt p) = y p" "onGround (afterMoveX k dt p) = False"
  "vy (afterMoveX k dt p) = vy (beforeMove k dt p)"
  by (simp_all add: afterMoveX_def rectVsTilesMove_def moveX_alt moveY_alt beforeMove_fields)

lemma moveStep_beforeMove:
  "moveStep dt (beforeMove k dt p) = moveY (afterMoveX k dt p) (vy (beforeMove k dt p) * dt)"
  unfolding moveStep_def Let_def afterMoveX_def [symmetric]
  by (simp add: rectVsTilesMove_def moveX_alt afterMoveX_fields)

lemma update_beforeMove:
  "update k dt p =
    (let q = goalStep (moveStep dt (beforeMove k dt p)) in q\<lparr> onGroundLast := onGround q \<rparr>)"
  by (simp add: update_def beforeMove_def Let_def)

lemma free_fall_tick:
  assumes "0 < dt" and "0 \<le> vy p" and "freeFallTick k dt p"
  shows "\<not> onGround (update k dt p) \<and> y p < y (update k dt p) \<and> 0 \<le> vy (update k dt p)"
proof -
  have v: "vy (beforeMove k dt p) = vy p + GRAVITY * dt"
    using assms(3) by (simp add: beforeMove_fields freeFallTick_def)
  have pos: "0 < vy (beforeMove k dt p) * dt"
    using assms(1,2) unfolding v GRAVITY_def by (simp add: add_nonneg_pos)
  have nb: "\<not> blockedY (afterMoveX k dt p) (vy (beforeMove k dt p) * dt)"
    using assms(3) by (simp add: freeFallTick_def reachesSolid_def)
  have m: "moveStep dt (beforeMove k dt p)
      = (afterMoveX k dt p)\<lparr> y := y p + vy (beforeMove k dt p) * dt \<rparr>"
    unfolding moveStep_beforeMove using pos nb by (simp add: moveY_alt afterMoveX_fields)
  have g: "goalStep (moveStep dt (beforeMove k dt p)) = moveStep dt (beforeMove k dt p)"
    using assms(3) by (simp add: freeFallTick_def goalStep_def)
  have u0: "update k dt p = (moveStep dt (beforeMove k dt p))
      \<lparr> onGroundLast := onGround (moveStep dt (beforeMove k dt p)) \<rparr>"
    unfolding update_beforeMove g Let_def ..
  have u: "update k dt p =
      (afterMoveX k dt p)\<lparr> y := y p + vy (beforeMove k dt p) * dt, onGroundLast := False \<rparr>"
    unfolding u0 m by (simp add: afterMoveX_fields)
  show ?thesis
    unfolding u using pos assms(1,2) by (simp add: afterMoveX_fields v GRAVITY_def)
qed

text \<open>
  The vertical velocity after a tick that reaches no solid tile and does not end in the
  goal reset: the impulse whenever the jump input is down and \<^verbatim>\<open>onGroundLast\<close> is true.
\<close>

lemma update_vy:
  assumes "\<not> reachesSolid k dt p" and "\<not> goalReached (moveStep dt (beforeMove k dt p))"
  shows "vy (update k dt p) = (if jumps k p then JUMP_VY else vy p + GRAVITY * dt)"
proof -
  have nb: "\<not> blockedY (afterMoveX k dt p) (vy (beforeMove k dt p) * dt)"
    using assms(1) by (simp add: reachesSolid_def)
  have "vy (moveStep dt (beforeMove k dt p)) = vy (beforeMove k dt p)"
    unfolding moveStep_beforeMove using nb by (simp add: moveY_alt afterMoveX_fields)
  moreover have "goalStep (moveStep dt (beforeMove k dt p)) = moveStep dt (beforeMove k dt p)"
    using assms(2) by (simp add: goalStep_def)
  ultimately show ?thesis
    unfolding update_beforeMove by (simp add: Let_def beforeMove_fields)
qed

text \<open>
  Claim C8, as the code has it. From a body with non-negative vertical velocity, and with
  a positive time step, every tick of a run of free-fall ticks (no jump impulse, no solid
  tile reached by the vertical pass, no goal reset) leaves \<^verbatim>\<open>onGround\<close> false and
  strictly increases y.
\<close>

theorem free_fall_descends:
  assumes "0 < dt" and "0 \<le> vy p" and "freeFall ks dt p"
  shows "descends ks dt p"
  using assms(2,3)
proof (induction ks arbitrary: p)
  case Nil
  show ?case by simp
next
  case (Cons k ks)
  from Cons.prems have t: "freeFallTick k dt p" and rest: "freeFall ks dt (update k dt p)"
    by simp_all
  from free_fall_tick [OF assms(1) Cons.prems(1) t]
  have s: "\<not> onGround (update k dt p)" "y p < y (update k dt p)" "0 \<le> vy (update k dt p)"
    by simp_all
  from Cons.IH [OF s(3) rest] s show ?case by simp
qed

lemmas fall_eval = freeFallTick_def jumps_def reachesSolid_def blockedY_def yTileOf_def
  afterMoveX_def beforeMove_def

theorem free_fall_descends_witness:
  "(0::real) < 1 / 60 \<and> 0 \<le> vy player0
   \<and> freeFall [noKeys, noKeys] (1 / 60) player0
   \<and> descends [noKeys, noKeys] (1 / 60) player0
   \<and> y (update noKeys (1 / 60) player0) = 769 / 2
   \<and> y (update noKeys (1 / 60) (update noKeys (1 / 60) player0)) = 771 / 2"
proof -
  have u1: "update noKeys (1 / 60) player0 = player0\<lparr> y := 769 / 2, vy := 30 \<rparr>"
    by (simp add: tick_eval noKeys_def player0_def)
  have u2: "update noKeys (1 / 60) (player0\<lparr> y := 769 / 2, vy := 30 \<rparr>)
      = player0\<lparr> y := 771 / 2, vy := 60 \<rparr>"
    by (simp add: tick_eval noKeys_def player0_def)
  have t1: "freeFallTick noKeys (1 / 60) player0"
    by (simp add: fall_eval tick_eval noKeys_def player0_def)
  have t2: "freeFallTick noKeys (1 / 60) (player0\<lparr> y := 769 / 2, vy := 30 \<rparr>)"
    by (simp add: fall_eval tick_eval noKeys_def player0_def)
  have ff: "freeFall [noKeys, noKeys] (1 / 60) player0"
    using t1 t2 by (simp add: u1)
  have v: "0 \<le> vy player0"
    by (simp add: player0_def)
  have dt: "(0::real) < 1 / 60"
    by simp
  from free_fall_descends [OF dt v ff] ff v show ?thesis
    by (simp add: u1 u2)
qed

text \<open>
  Without the two exclusions the claim fails. A body player0 past the goal line, with no
  solid tile in the five rows below it, is reset to the spawn point and its y drops from
  400 to 384; a body in the air at the spawn point whose \<^verbatim>\<open>onGroundLast\<close> is set jumps
  when Space is down, and rises.
\<close>

theorem free_fall_counterexample:
  "0 \<le> vy fallingIntoGoal
   \<and> \<not> jumps noKeys fallingIntoGoal
   \<and> \<not> reachesSolid noKeys (1 / 60) fallingIntoGoal
   \<and> \<not> isSolidTile 116 13 \<and> \<not> isSolidTile 116 14 \<and> \<not> isSolidTile 116 15
   \<and> \<not> isSolidTile 116 16 \<and> \<not> isSolidTile 116 17
   \<and> y fallingIntoGoal = 400
   \<and> y (update noKeys (1 / 60) fallingIntoGoal) = 384
   \<and> 0 \<le> vy respawned
   \<and> \<not> reachesSolid jumpHeld (1 / 60) respawned
   \<and> y (update jumpHeld (1 / 60) respawned) < y respawned"
proof -
  have u1: "update noKeys (1 / 60) fallingIntoGoal =
      \<lparr> x = 64, y = 384, w = 26, h = 30, vx = 0, vy = 0,
        onGround = False, facing = 1, onGroundLast = False \<rparr>"
    by (simp add: tick_eval noKeys_def fallingIntoGoal_def)
  have r1: "\<not> reachesSolid noKeys (1 / 60) fallingIntoGoal"
    by (simp add: fall_eval tick_eval noKeys_def fallingIntoGoal_def)
  have u2: "update jumpHeld (1 / 60) respawned =
      \<lparr> x = 64, y = 1126 / 3, w = 26, h = 30, vx = 0, vy = - 520,
        onGround = False, facing = 1, onGroundLast = False \<rparr>"
    by (simp add: tick_eval jumpHeld_def respawned_def)
  have r2: "\<not> reachesSolid jumpHeld (1 / 60) respawned"
    by (simp add: fall_eval tick_eval jumpHeld_def respawned_def)
  show ?thesis
    unfolding u1 u2 using r1 r2
    by (simp add: jumps_def noKeys_def fallingIntoGoal_def respawned_def isSolidTile_iff)
qed

section \<open>Properties of the agent server\<close>

subsection \<open>The fallback heuristic\<close>

lemma heuristic_cases: "heuristic st = ''right'' \<or> heuristic st = ''right_jump''"
  by (simp add: heuristic_def Let_def)

lemma heuristic_in_ACTIONS: "lit (heuristic st) \<in> ACTIONS"
  using heuristic_cases [of st] by (auto simp: ACTIONS_def)

lemma heuristic_airborne:
  "\<not> truthy (opt_prop (opt_prop st ''player'') ''onGround'') \<Longrightarrow> heuristic st = ''right''"
  by (simp add: heuristic_def Let_def)

lemma cell_json:
  assumes "r < length g" and "c < length (g ! r)"
  shows "opt_idx (idx (JArr (map (\<lambda>row. JArr (map (\<lambda>v. JNum (of_nat v)) row)) g)) r) c
     = JNum (of_nat (g ! r ! c))"
  using assms by (simp add: opt_idx_def)

text \<open>
  Claim C5. On every perception snapshot (5 rows of 9 cells) the heuristic returns
  \<^verbatim>\<open>right_jump\<close> when \<^verbatim>\<open>onGround\<close> is true and \<^verbatim>\<open>nearGrid[0][1]\<close> is 1 or
  \<^verbatim>\<open>nearGrid[0][2]\<close> is 1 or \<^verbatim>\<open>nearGrid[0][0]\<close> is 0, and \<^verbatim>\<open>right\<close> otherwise; with
  \<^verbatim>\<open>onGround\<close> false the output is none of the tokens that include a jump.
\<close>

theorem heuristic_spec:
  assumes "grid 5 9 (nearGrid s)"
  shows "heuristic (snapshot_json s) =
      (if snap_onGround (snap_player s)
          \<and> (nearGrid s ! 0 ! 1 = 1 \<or> nearGrid s ! 0 ! 2 = 1 \<or> nearGrid s ! 0 ! 0 = 0)
       then ''right_jump'' else ''right'')
    \<and> (snap_onGround (snap_player s) \<or>
         heuristic (snapshot_json s) \<notin> {''jump'', ''left_jump'', ''right_jump''})"
proof -
  have len: "0 < length (nearGrid s)" "0 < length (nearGrid s ! 0)"
    "1 < length (nearGrid s ! 0)" "2 < length (nearGrid s ! 0)"
    using assms grid_nth [OF assms, of 0] by (simp_all add: grid_length)
  have g: "js_or (opt_prop (snapshot_json s) ''nearGrid'') (JArr [])
      = JArr (map (\<lambda>row. JArr (map (\<lambda>v. JNum (of_nat v)) row)) (nearGrid s))"
    by (simp add: snapshot_json_def opt_prop_def js_or_def)
  have og: "truthy (opt_prop (opt_prop (snapshot_json s) ''player'') ''onGround'')
      = snap_onGround (snap_player s)"
    by (simp add: snapshot_json_def opt_prop_def)
  have h: "heuristic (snapshot_json s) =
      (if snap_onGround (snap_player s)
          \<and> (nearGrid s ! 0 ! 1 = 1 \<or> nearGrid s ! 0 ! 2 = 1 \<or> nearGrid s ! 0 ! 0 = 0)
       then ''right_jump'' else ''right'')"
  proof -
    have cells:
      "opt_idx (idx (JArr (map (\<lambda>row. JArr (map (\<lambda>v. JNum (of_nat v)) row)) (nearGrid s))) 0) 1
         = JNum (of_nat (nearGrid s ! 0 ! 1))"
      "opt_idx (idx (JArr (map (\<lambda>row. JArr (map (\<lambda>v. JNum (of_nat v)) row)) (nearGrid s))) 0) 2
         = JNum (of_nat (nearGrid s ! 0 ! 2))"
      "opt_idx (idx (JArr (map (\<lambda>row. JArr (map (\<lambda>v. JNum (of_nat v)) row)) (nearGrid s))) 0) 0
         = JNum (of_nat (nearGrid s ! 0 ! 0))"
      by (rule cell_json [OF len(1) len(3)], rule cell_json [OF len(1) len(4)],
          rule cell_json [OF len(1) len(2)])
    show ?thesis
      unfolding heuristic_def Let_def g og cells by simp
  qed
  show ?thesis unfolding h by simp
qed

theorem heuristic_spec_witness:
  "grid 5 9 (nearGrid wallAhead)
   \<and> heuristic (snapshot_json wallAhead) = ''right_jump''
   \<and> heuristic (snapshot_json (wallAhead\<lparr> snap_player := snap_player wallAhead \<lparr> snap_onGround := False \<rparr> \<rparr>))
       = ''right''"
proof -
  have g: "grid 5 9 (nearGrid wallAhead)"
    by (simp add: wallAhead_def grid_def)
  have g': "grid 5 9 (nearGrid (wallAhead\<lparr> snap_player := snap_player wallAhead \<lparr> snap_onGround := False \<rparr> \<rparr>))"
    by (simp add: wallAhead_def grid_def)
  show ?thesis
    using g heuristic_spec [OF g] heuristic_spec [OF g']
    by (simp add: wallAhead_def)
qed

subsection \<open>Validation\<close>

lemma find_upt5: "(\<exists>r. find P [0..<5] = Some r) \<longleftrightarrow> (\<exists>r<5. P r)"
proof -
  have "find P [0..<5] = None \<longleftrightarrow> \<not> (\<exists>r<5. P r)"
    by (simp add: find_None_iff del: upt_rec_numeral)
  then show ?thesis by (cases "find P [0..<5]") auto
qed

lemma onGround_of_player:
  "getProp (js_or (getProp st ''player'') (JObj [])) ''onGround''
     = getProp (getProp st ''player'') ''onGround''"
  by (cases "getProp st ''player''") (simp_all add: js_or_def)

text \<open>
  Claim C10. \<^verbatim>\<open>validateState\<close> throws exactly when the state is not an object, or
  \<^verbatim>\<open>player.onGround\<close> is not a boolean, or \<^verbatim>\<open>nearGrid\<close> is not an array, or has fewer than
  5 rows, or one of its first 5 rows is not an array of at least 9 entries; when it does
  not throw it returns the state it was given.
\<close>

theorem validateState_throws_iff:
  "(isl (validateState st) \<longleftrightarrow>
      \<not> isPlainObject st
      \<or> \<not> typeof_boolean (getProp (getProp st ''player'') ''onGround'')
      \<or> \<not> isArray (getProp st ''nearGrid'')
      \<or> length (elems (getProp st ''nearGrid'')) < 5
      \<or> (\<exists>r<5. \<not> isArray (idx (getProp st ''nearGrid'') r)
                 \<or> length (elems (idx (getProp st ''nearGrid'') r)) < 9))
   \<and> (isl (validateState st) \<or> validateState st = Inr st)"
proof -
  define P where
    "P = (\<lambda>r. \<not> isArray (idx (getProp st ''nearGrid'') r)
            \<or> length (elems (idx (getProp st ''nearGrid'') r)) < 9)"
  have vs: "validateState st =
    (if \<not> truthy st \<or> \<not> typeof_object st then Inl MissingState
     else if \<not> typeof_boolean (getProp (getProp st ''player'') ''onGround'')
       then Inl OnGroundNotBoolean
     else if \<not> isArray (getProp st ''nearGrid'') then Inl NearGridNotArray
     else if length (elems (getProp st ''nearGrid'')) < 5 then Inl NearGridRows
     else (case find P [0..<5] of Some r \<Rightarrow> Inl (NearGridCols r) | None \<Rightarrow> Inr st))"
    unfolding validateState_def Let_def P_def onGround_of_player ..
  have rows: "(\<exists>r<5. \<not> isArray (idx (getProp st ''nearGrid'') r)
                 \<or> length (elems (idx (getProp st ''nearGrid'') r)) < 9)
      \<longleftrightarrow> (\<exists>r. find P [0..<5] = Some r)"
    unfolding find_upt5 P_def ..
  have arr: "typeof_boolean (getProp (getProp st ''player'') ''onGround'') \<Longrightarrow> isPlainObject st"
    by (cases st) simp_all
  have obj: "isPlainObject st \<Longrightarrow> truthy st \<and> typeof_object st"
    by (cases st) simp_all
  show ?thesis
    unfolding rows vs using arr obj
    by (cases "find P [0..<5]") (auto simp del: upt_rec_numeral)
qed


theorem validateState_throws_iff_witness:
  "validateState oversizedState = Inr oversizedState
   \<and> isl (validateState JUndefined)
   \<and> isl (validateState (JObj [(''player'', JObj [(''onGround'', JNum 1)]), (''nearGrid'', JArr [])]))
   \<and> isl (validateState (JObj [(''player'', JObj [(''onGround'', JBool True)]),
                               (''nearGrid'', JArr (replicate 5 (JArr (replicate 8 (JNum 0)))))]))"
proof -
  have ok: "isPlainObject oversizedState"
    "typeof_boolean (getProp (getProp oversizedState ''player'') ''onGround'')"
    "isArray (getProp oversizedState ''nearGrid'')"
    "\<not> length (elems (getProp oversizedState ''nearGrid'')) < 5"
    by (simp_all add: oversizedState_def)
  have rows: "\<not> (\<exists>r<5. \<not> isArray (idx (getProp oversizedState ''nearGrid'') r)
                 \<or> length (elems (idx (getProp oversizedState ''nearGrid'') r)) < 9)"
    by (auto simp: oversizedState_def)
  have 1: "validateState oversizedState = Inr oversizedState"
    using validateState_throws_iff [of oversizedState] ok rows by blast
  have 2: "isl (validateState JUndefined)"
    using validateState_throws_iff [of JUndefined] by simp
  have 3: "isl (validateState (JObj [(''player'', JObj [(''onGround'', JNum 1)]), (''nearGrid'', JArr [])]))"
    using validateState_throws_iff
      [of "JObj [(''player'', JObj [(''onGround'', JNum 1)]), (''nearGrid'', JArr [])]"]
    by simp
  have short: "\<exists>r<5. \<not> isArray (idx (JArr (replicate 5 (JArr (replicate 8 (JNum 0))))) r)
                 \<or> length (elems (idx (JArr (replicate 5 (JArr (replicate 8 (JNum 0))))) r)) < 9"
    by (rule exI [of _ 0]) simp
  have 4: "isl (validateState (JObj [(''player'', JObj [(''onGround'', JBool True)]),
                               (''nearGrid'', JArr (replicate 5 (JArr (replicate 8 (JNum 0)))))]))"
    using validateState_throws_iff
      [of "JObj [(''player'', JObj [(''onGround'', JBool True)]),
                 (''nearGrid'', JArr (replicate 5 (JArr (replicate 8 (JNum 0)))))]"] short
    by simp
  from 1 2 3 4 show ?thesis by blast
qed

subsection \<open>The decision\<close>

lemma askModel_Rejected: "askModel parse ns lower Rejected = Inl RequestFailed"
  by (simp add: askModel_def)

text \<open>The result is one of the six tokens, whatever the state and the service.\<close>

lemma decideAction_in_ACTIONS: "decideAction openai parse ns lower r st \<in> ACTIONS"
  by (cases "askModel parse ns lower (create (Some TIMEOUT_MS) None r)")
    (simp_all add: decideAction_def heuristic_in_ACTIONS)

text \<open>
  What \<^verbatim>\<open>decideAction\<close> returns, case by case: the heuristic's output without a client,
  on a rejection, on text that does not parse, on a parsed \<^verbatim>\<open>null\<close> and on a token that,
  lower-cased, is none of the six; and otherwise that lower-cased token.
\<close>

lemma decideAction_cases:
  "decideAction openai parse ns lower r st =
    (if \<not> openai then lit (heuristic st)
     else case reply r of
       Rejected \<Rightarrow> lit (heuristic st)
     | Resolved content \<Rightarrow>
         (case parse (stripFences (if nullish content then JStr (lit ''{}'') else content)) of
            None \<Rightarrow> lit (heuristic st)
          | Some parsed \<Rightarrow>
              if nullish parsed then lit (heuristic st)
              else if lower (js_String ns (js_or (getProp parsed ''action'') (JStr []))) \<in> ACTIONS
                then lower (js_String ns (js_or (getProp parsed ''action'') (JStr [])))
                else lit (heuristic st)))"
  by (simp add: decideAction_def askModel_def create_def Let_def
      split: completion.splits option.splits)

text \<open>The time the service takes changes nothing.\<close>

lemma decideAction_latency:
  "decideAction openai parse ns lower (r\<lparr> latency := n \<rparr>) st
     = decideAction openai parse ns lower r st"
  by (simp add: decideAction_cases)

text \<open>A signal passed in the request options would reject an answer that comes too late.\<close>

lemma create_options_signal: "t < latency r \<Longrightarrow> create b (Some t) r = Rejected"
  by (simp add: create_def)

lemmas string_eval = stripFences_def strip_open_fence_def strip_close_fence_def
  strip_prefix_ci_def trim_def is_space_def ascii_lower_def asciiLower_def lit_def

lemma stripFences_examples:
  "stripFences (JStr (lit ''```JSON'' @ [0xA0, 0x2028] @ lit ''{}'' @ [0x3000] @ lit ''```'')) = lit ''{}''
   \<and> stripFences (JStr ([0xFEFF, 0x0A] @ lit ''{}'' @ [0x2029, 0x20])) = lit ''{}''
   \<and> stripFences (JStr (lit ''{} ``` '')) = lit ''{} ```''
   \<and> stripFences JNull = lit ''{}''"
  by (simp add: string_eval)

lemma lit_eq_Nil: "lit s = [] \<longleftrightarrow> s = []"
  by (simp add: lit_def)

lemma heuristic_wallAhead: "heuristic (snapshot_json wallAhead) = ''right_jump''"
  by (simp add: heuristic_def snapshot_json_def wallAhead_def opt_prop_def opt_idx_def js_or_def
      Let_def)

lemma actions_eval:
  "lit ''left'' \<in> ACTIONS" "lit ''jump'' \<in> ACTIONS" "lit ''fly'' \<notin> ACTIONS" "[] \<notin> ACTIONS"
  by (simp_all add: ACTIONS_def lit_def)

lemma decideAction_examples:
  "decideAction True parseStub printZero asciiLower
      \<lparr> latency = 300, reply = Resolved (JStr (lit ''```json {\"action\":\"LEFT\"} ```'')) \<rparr>
      (snapshot_json wallAhead) = lit ''left''
   \<and> decideAction True parseStub printZero asciiLower
      \<lparr> latency = 300, reply = Resolved (JStr (lit ''{\"action\":\"fly\"}'')) \<rparr>
      (snapshot_json wallAhead) = lit ''right_jump''
   \<and> decideAction True parseStub printZero asciiLower
      \<lparr> latency = 300, reply = Resolved (JStr (lit ''{}'')) \<rparr> (snapshot_json wallAhead)
       = lit ''right_jump''
   \<and> decideAction True parseStub printZero asciiLower
      \<lparr> latency = 300, reply = Resolved (JStr (lit ''null'')) \<rparr> (snapshot_json wallAhead)
       = lit ''right_jump''
   \<and> decideAction True parseStub printZero asciiLower
      \<lparr> latency = 300, reply = Resolved (JStr (lit ''{\"action\":'')) \<rparr> (snapshot_json wallAhead)
       = lit ''right_jump''
   \<and> decideAction True parseStub printZero asciiLower
      \<lparr> latency = 300, reply = Resolved JNull \<rparr> (snapshot_json wallAhead) = lit ''right_jump''
   \<and> decideAction True parseStub printZero asciiLower
      \<lparr> latency = 300, reply = Rejected \<rparr> (snapshot_json wallAhead) = lit ''right_jump''
   \<and> decideAction False parseStub printZero asciiLower
      \<lparr> latency = 300, reply = Resolved (JStr (lit ''{\"action\":\"left\"}'')) \<rparr>
      (snapshot_json wallAhead) = lit ''right_jump''
   \<and> decideAction True (\<lambda>_. Some (JObj [(''action'', JArr [JStr (lit ''Jump'')])])) printZero asciiLower
      \<lparr> latency = 300, reply = Resolved JNull \<rparr> (snapshot_json wallAhead) = lit ''jump''"
proof -
  have s1: "stripFences (JStr (lit ''```json {\"action\":\"LEFT\"} ```'')) = lit ''{\"action\":\"LEFT\"}''"
    and s2: "stripFences (JStr (lit ''{\"action\":\"fly\"}'')) = lit ''{\"action\":\"fly\"}''"
    and s3: "stripFences (JStr (lit ''{}'')) = lit ''{}''"
    and s4: "stripFences (JStr (lit ''null'')) = lit ''null''"
    and s5: "stripFences (JStr (lit ''{\"action\":'')) = lit ''{\"action\":''"
    and s6: "stripFences (JStr (lit ''{\"action\":\"left\"}'')) = lit ''{\"action\":\"left\"}''"
    by (simp_all add: string_eval)
  have p: "parseStub (lit ''{\"action\":\"LEFT\"}'') = Some (JObj [(''action'', JStr (lit ''LEFT''))])"
    "parseStub (lit ''{\"action\":\"fly\"}'') = Some (JObj [(''action'', JStr (lit ''fly''))])"
    "parseStub (lit ''{}'') = Some (JObj [])"
    "parseStub (lit ''null'') = Some JNull"
    "parseStub (lit ''{\"action\":'') = None"
    by (simp_all add: parseStub_def lit_def)
  have l: "asciiLower (lit ''LEFT'') = lit ''left''" "asciiLower (lit ''fly'') = lit ''fly''"
    "asciiLower (lit ''Jump'') = lit ''jump''" "asciiLower [] = []"
    by (simp_all add: asciiLower_def ascii_lower_def lit_def)
  show ?thesis
    unfolding decideAction_cases
    by (simp add: s1 s2 s3 s4 s5 s6 p l js_or_def actions_eval heuristic_wallAhead lit_eq_Nil)
qed

text \<open>
  Claim C6. \<^verbatim>\<open>decideAction\<close> is to return one of the six tokens: the remote answer when,
  lower-cased, it is one of them, and the heuristic's output on an invalid or missing
  token, on malformed JSON, on an error and on a timeout. The code does all of it but the
  timeout: its result is always one of the six tokens and is, case by case, what the claim
  says, but it does not depend on the time the service takes. The abort signal of the
  2500 ms timer is a field of the request body and not of the request options, so it
  cancels nothing, and an answer that comes after the timeout is returned all the same:
  here the service answers \<^verbatim>\<open>left\<close> after 4000 ms, on a state for which the heuristic
  says \<^verbatim>\<open>right_jump\<close>, and \<^verbatim>\<open>decideAction\<close> returns \<^verbatim>\<open>left\<close>.
\<close>

theorem late_answer_returned:
  "decideAction openai parse ns lower r st \<in> ACTIONS
   \<and> decideAction openai parse ns lower r st =
      (if \<not> openai then lit (heuristic st)
       else case reply r of
         Rejected \<Rightarrow> lit (heuristic st)
       | Resolved content \<Rightarrow>
           (case parse (stripFences (if nullish content then JStr (lit ''{}'') else content)) of
              None \<Rightarrow> lit (heuristic st)
            | Some parsed \<Rightarrow>
                if nullish parsed then lit (heuristic st)
                else if lower (js_String ns (js_or (getProp parsed ''action'') (JStr []))) \<in> ACTIONS
                  then lower (js_String ns (js_or (getProp parsed ''action'') (JStr [])))
                  else lit (heuristic st)))
   \<and> TIMEOUT_MS < latency lateLeft
   \<and> create None (Some TIMEOUT_MS) lateLeft = Rejected
   \<and> create (Some TIMEOUT_MS) None lateLeft = reply lateLeft
   \<and> heuristic (snapshot_json wallAhead) = ''right_jump''
   \<and> decideAction True parseStub printZero asciiLower lateLeft (snapshot_json wallAhead) = lit ''left''"
proof -
  have s: "stripFences (JStr (lit ''{\"action\":\"left\"}'')) = lit ''{\"action\":\"left\"}''"
    by (simp add: string_eval)
  have p: "parseStub (lit ''{\"action\":\"left\"}'') = Some (JObj [(''action'', JStr (lit ''left''))])"
    by (simp add: parseStub_def lit_def)
  have l: "asciiLower (lit ''left'') = lit ''left''"
    by (simp add: asciiLower_def ascii_lower_def lit_def)
  have d: "decideAction True parseStub printZero asciiLower lateLeft (snapshot_json wallAhead)
      = lit ''left''"
    by (simp add: decideAction_def askModel_def create_def lateLeft_def Let_def s p l js_or_def
        actions_eval lit_eq_Nil)
  have t: "TIMEOUT_MS < latency lateLeft" "create None (Some TIMEOUT_MS) lateLeft = Rejected"
    "create (Some TIMEOUT_MS) None lateLeft = reply lateLeft"
    by (simp_all add: create_def lateLeft_def TIMEOUT_MS_def)
  from decideAction_in_ACTIONS [of openai parse ns lower r st]
    decideAction_cases [of openai parse ns lower r st] t heuristic_wallAhead d
  show ?thesis by blast
qed

end
